theory Spec2Isabelle
  imports Complex_Main
begin

section \<open>Conventions of the embedding\<close>

text \<open>
  The Python sources compute on floats. Where the truth of a statement does not depend on
  binary rounding (comparisons, thresholds, the decimal rounding of \<open>round\<close>), a float
  is idealised as the real it stands for. The balance and the daily pnl, which
  \<open>record_trade_result\<close> accumulates over many trades, are rounded to binary64 after each
  operation, as the interpreter does (\<open>fl64\<close> below). A \<open>datetime\<close> is a number of seconds; \<open>timedelta(minutes=n)\<close> is
  \<open>minutes n\<close>, and the calendar day that \<open>strftime("%Y-%m-%d")\<close> prints is the
  day number \<open>date_of t\<close>. The clock \<open>datetime.now()\<close> is a parameter \<open>now\<close> of every
  operation that reads it.
\<close>

type_synonym datetime = int

definition minutes :: "int \<Rightarrow> int" where
  "minutes n = 60 * n"

definition date_of :: "datetime \<Rightarrow> int" where
  "date_of t = t div 86400"

text \<open>
  Python's \<open>round(x, n)\<close> rounds to the nearest multiple of \<open>10^-n\<close>, a tie going to
  the even neighbour.
\<close>

definition round_half_even :: "real \<Rightarrow> int" where
  "round_half_even x =
     (let f = \<lfloor>x\<rfloor>; r = x - of_int f
      in if r < 1 / 2 then f
         else if 1 / 2 < r then f + 1
         else if even f then f else f + 1)"

definition py_round :: "real \<Rightarrow> nat \<Rightarrow> real" where
  "py_round x n = of_int (round_half_even (x * 10 ^ n)) / 10 ^ n"

text \<open>
  The binary64 value of a real: round to nearest, ties to even, on 53 significant bits,
  with the fixed spacing \<open>2^-1074\<close> below \<open>2^-1022\<close>. Overflow to infinity, which
  no balance of this program comes near, is not modelled. A float operation of the source
  is the exact operation followed by \<open>fl64\<close>.
\<close>

definition fl64 :: "real \<Rightarrow> real" where
  "fl64 x =
     (if x = 0 then 0
      else let e = max \<lfloor>log 2 \<bar>x\<bar>\<rfloor> (- 1022);
               ulp = 2 powi (e - 52)
           in of_int (round_half_even (x / ulp)) * ulp)"

text \<open>
  Adding a list of floats one after the other, from a starting value: what repeated
  \<open>+=\<close> does, and, from 0, Python's \<open>sum\<close>.
\<close>

definition accumulate :: "real \<Rightarrow> real list \<Rightarrow> real" where
  "accumulate start xs = foldl (\<lambda>acc x. fl64 (acc + x)) start xs"

section \<open>config.py\<close>

record config =
  INITIAL_BALANCE :: real
  MAX_RISK_PER_TRADE :: real
  MAX_DAILY_LOSS :: real
  MAX_CONSECUTIVE_LOSSES :: int
  COOLDOWN_MINUTES :: int
  MAX_OPEN_TRADES :: int
  MIN_BALANCE_RATIO :: real
  TRADE_EXPIRY_MINUTES :: int
  PAYOUT_RATE :: real
  MIN_SIGNAL_CONFIDENCE :: real
  INDICATOR_WEIGHTS :: "(string \<times> real) list"

definition default_config :: config where
  "default_config =
     \<lparr>INITIAL_BALANCE = 20,
      MAX_RISK_PER_TRADE = 2 / 100,
      MAX_DAILY_LOSS = 5 / 100,
      MAX_CONSECUTIVE_LOSSES = 3,
      COOLDOWN_MINUTES = 10,
      MAX_OPEN_TRADES = 2,
      MIN_BALANCE_RATIO = 10 / 100,
      TRADE_EXPIRY_MINUTES = 5,
      PAYOUT_RATE = 80 / 100,
      MIN_SIGNAL_CONFIDENCE = 70,
      INDICATOR_WEIGHTS =
        [(''rsi'', 20 / 100), (''macd'', 20 / 100), (''bollinger'', 15 / 100),
         (''ema_cross'', 20 / 100), (''stochastic'', 15 / 100),
         (''support_resistance'', 10 / 100)]\<rparr>"

section \<open>core/risk_manager.py\<close>

text \<open>
  \<open>DailyStats.date\<close> starts as the empty string, which is no day: \<open>None\<close> here.
\<close>

record DailyStats =
  date :: "int option"
  starting_balance :: real
  trades_taken :: int
  wins :: int
  losses :: int
  total_pnl :: real
  consecutive_losses :: int
  cooldown_until :: "datetime option"

definition DailyStats_new :: "int option \<Rightarrow> real \<Rightarrow> DailyStats" where
  "DailyStats_new d sb =
     \<lparr>date = d, starting_balance = sb, trades_taken = 0, wins = 0, losses = 0,
      total_pnl = 0, consecutive_losses = 0, cooldown_until = None\<rparr>"

definition daily_loss_pct :: "DailyStats \<Rightarrow> real" where
  "daily_loss_pct ds =
     (if starting_balance ds = 0 then 0
      else \<bar>min 0 (total_pnl ds)\<bar> / starting_balance ds * 100)"

text \<open>The metadata \<open>_resolve_trade\<close> and \<open>simulate_demo_losses\<close> pass as \<open>trade_info\<close>.\<close>

record trade_info =
  ti_symbol :: string
  ti_direction :: string
  ti_entry_price :: real
  ti_exit_price :: real
  ti_confidence :: real

text \<open>One entry of \<open>RiskManager.trade_history\<close>.\<close>

record history_record =
  h_timestamp :: datetime
  h_result :: string
  h_amount :: real
  h_pnl :: real
  h_balance_after :: real
  h_info :: "trade_info option"

record RiskManager =
  initial_balance :: real
  balance :: real
  daily_stats :: DailyStats
  open_trades_count :: int
  trade_history :: "history_record list"

definition reset_daily_stats :: "datetime \<Rightarrow> RiskManager \<Rightarrow> RiskManager" where
  "reset_daily_stats now s =
     (if date (daily_stats s) \<noteq> Some (date_of now)
      then s\<lparr>daily_stats := DailyStats_new (Some (date_of now)) (balance s)\<rparr>
      else s)"

text \<open>
  \<open>RiskManager.__init__\<close>: \<open>balance or config.INITIAL_BALANCE\<close> takes the configured
  value when the argument is \<open>None\<close> or zero. The constructor has no failing branch.
\<close>

definition RiskManager_init :: "config \<Rightarrow> real option \<Rightarrow> datetime \<Rightarrow> RiskManager" where
  "RiskManager_init cfg b now =
     (let ib = (case b of None \<Rightarrow> INITIAL_BALANCE cfg
                | Some x \<Rightarrow> if x = 0 then INITIAL_BALANCE cfg else x)
      in reset_daily_stats now
           \<lparr>initial_balance = ib, balance = ib, daily_stats = DailyStats_new None 0,
            open_trades_count = 0, trade_history = []\<rparr>)"

definition calculate_position_size :: "config \<Rightarrow> RiskManager \<Rightarrow> real" where
  "calculate_position_size cfg s = py_round (balance s * MAX_RISK_PER_TRADE cfg) 2"

text \<open>
  The reason strings of \<open>can_trade\<close>, with the numbers they print as arguments.
\<close>

datatype reason =
    BALANCE_TOO_LOW real real
  | DAILY_LOSS_LIMIT real real
  | COOLDOWN_ACTIVE int int
  | MAX_OPEN_TRADES_REACHED int int
  | POSITION_TOO_SMALL real
  | ALL_CHECKS_PASSED

text \<open>
  Rules 4 and 5 of \<open>can_trade\<close>, reached when rule 3 did not block.
\<close>

definition can_trade_tail :: "config \<Rightarrow> RiskManager \<Rightarrow> bool \<times> reason \<times> RiskManager" where
  "can_trade_tail cfg s =
     (if MAX_OPEN_TRADES cfg \<le> open_trades_count s
      then (False, MAX_OPEN_TRADES_REACHED (open_trades_count s) (MAX_OPEN_TRADES cfg), s)
      else let trade_amount = calculate_position_size cfg s
           in if trade_amount < 1 / 100 then (False, POSITION_TOO_SMALL trade_amount, s)
              else (True, ALL_CHECKS_PASSED, s))"

definition can_trade :: "config \<Rightarrow> datetime \<Rightarrow> RiskManager \<Rightarrow> bool \<times> reason \<times> RiskManager" where
  "can_trade cfg now s0 =
     (let s = reset_daily_stats now s0;
          min_balance = initial_balance s * MIN_BALANCE_RATIO cfg
      in if balance s < min_balance then (False, BALANCE_TOO_LOW (balance s) min_balance, s)
         else if MAX_DAILY_LOSS cfg * 100 \<le> daily_loss_pct (daily_stats s)
         then (False, DAILY_LOSS_LIMIT (daily_loss_pct (daily_stats s)) (MAX_DAILY_LOSS cfg * 100), s)
         else if MAX_CONSECUTIVE_LOSSES cfg \<le> consecutive_losses (daily_stats s)
         then (case cooldown_until (daily_stats s) of
                 None \<Rightarrow> can_trade_tail cfg s
               | Some cu \<Rightarrow>
                   if now < cu
                   then (False,
                         COOLDOWN_ACTIVE (((cu - now) mod 86400) div 60) (MAX_CONSECUTIVE_LOSSES cfg),
                         s)
                   else can_trade_tail cfg
                          (s\<lparr>daily_stats :=
                               (daily_stats s)\<lparr>consecutive_losses := 0, cooldown_until := None\<rparr>\<rparr>))
         else can_trade_tail cfg s)"

definition record_trade_result ::
  "config \<Rightarrow> datetime \<Rightarrow> bool \<Rightarrow> real \<Rightarrow> trade_info option \<Rightarrow> RiskManager \<Rightarrow> RiskManager" where
  "record_trade_result cfg now won amount info s0 =
     (let s = reset_daily_stats now s0;
          ds = daily_stats s;
          s1 = (if won
                then let profit = fl64 (amount * PAYOUT_RATE cfg)
                     in s\<lparr>balance := fl64 (balance s + profit),
                          daily_stats := ds\<lparr>wins := wins ds + 1,
                                            total_pnl := fl64 (total_pnl ds + profit),
                                            consecutive_losses := 0\<rparr>\<rparr>
                else let n = consecutive_losses ds + 1;
                         ds1 = ds\<lparr>losses := losses ds + 1,
                                  total_pnl := fl64 (total_pnl ds - amount),
                                  consecutive_losses := n\<rparr>
                     in s\<lparr>balance := fl64 (balance s - amount),
                          daily_stats :=
                            (if MAX_CONSECUTIVE_LOSSES cfg \<le> n
                             then ds1\<lparr>cooldown_until := Some (now + minutes (COOLDOWN_MINUTES cfg))\<rparr>
                             else ds1)\<rparr>);
          s2 = s1\<lparr>daily_stats := (daily_stats s1)\<lparr>trades_taken := trades_taken (daily_stats s1) + 1\<rparr>\<rparr>;
          rec = \<lparr>h_timestamp = now,
                 h_result = (if won then ''WIN'' else ''LOSS''),
                 h_amount = amount,
                 h_pnl = (if won then fl64 (amount * PAYOUT_RATE cfg) else - amount),
                 h_balance_after = balance s2,
                 h_info = info\<rparr>
      in s2\<lparr>trade_history := trade_history s2 @ [rec]\<rparr>)"

definition open_trade :: "RiskManager \<Rightarrow> RiskManager" where
  "open_trade s = s\<lparr>open_trades_count := open_trades_count s + 1\<rparr>"

definition close_trade :: "RiskManager \<Rightarrow> RiskManager" where
  "close_trade s = s\<lparr>open_trades_count := max 0 (open_trades_count s - 1)\<rparr>"

text \<open>
  A sequence of resolved trades, each given by the clock reading at which it is recorded,
  whether it won, and its stake, recorded one after the other.
\<close>

fun record_all :: "config \<Rightarrow> (datetime \<times> bool \<times> real) list \<Rightarrow> RiskManager \<Rightarrow> RiskManager" where
  "record_all cfg [] s = s"
| "record_all cfg ((now, won, amount) # rest) s =
     record_all cfg rest (record_trade_result cfg now won amount None s)"

text \<open>
  The pnl of one recorded trade, as \<open>record_trade_result\<close> computes it: the float
  product of stake and payout rate for a win, minus the stake for a loss.
\<close>

definition trade_pnl :: "config \<Rightarrow> datetime \<times> bool \<times> real \<Rightarrow> real" where
  "trade_pnl cfg tr = (case tr of (now, won, amount) \<Rightarrow>
     if won then fl64 (amount * PAYOUT_RATE cfg) else - amount)"

section \<open>core/signals.py\<close>

text \<open>
  A \<open>Signal\<close>; its constructor stores the confidence rounded to one decimal place.
  The per-indicator breakdown is the list of (name, score, direction).
\<close>

record Signal =
  sig_symbol :: string
  sig_direction :: string
  sig_confidence :: real
  sig_indicators :: "(string \<times> real \<times> string) list"
  sig_price :: real
  sig_timeframe :: string
  sig_timestamp :: datetime

definition Signal_init ::
  "string \<Rightarrow> string \<Rightarrow> real \<Rightarrow> (string \<times> real \<times> string) list \<Rightarrow> real \<Rightarrow> string \<Rightarrow> datetime \<Rightarrow> Signal" where
  "Signal_init smb dir conf inds p tf now =
     \<lparr>sig_symbol = smb, sig_direction = dir, sig_confidence = py_round conf 1,
      sig_indicators = inds, sig_price = p, sig_timeframe = tf, sig_timestamp = now\<rparr>"

text \<open>\<open>self.weights.get(ind, 0)\<close> on the weight dictionary.\<close>

definition weights_get :: "(string \<times> real) list \<Rightarrow> string \<Rightarrow> real" where
  "weights_get ws k = (case map_of ws k of None \<Rightarrow> 0 | Some w \<Rightarrow> w)"

text \<open>
  The weighted vote: the loop over \<open>directions.items()\<close> that accumulates
  \<open>call_weight\<close> and \<open>put_weight\<close>.
\<close>

fun vote :: "(string \<times> real) list \<Rightarrow> (string \<times> real \<times> string) list \<Rightarrow> real \<times> real \<Rightarrow> real \<times> real" where
  "vote ws [] acc = acc"
| "vote ws ((ind, score, d) # rest) (call_weight, put_weight) =
     (let w = weights_get ws ind * score
      in vote ws rest
           (if d = ''CALL'' then (call_weight + w, put_weight)
            else if d = ''PUT'' then (call_weight, put_weight + w)
            else (call_weight, put_weight)))"

text \<open>
  The confidence computed by \<open>analyze\<close> from the six indicator results, with the
  overall direction; \<open>None\<close> when both weighted votes are zero.
\<close>

definition overall_confidence ::
  "config \<Rightarrow> (string \<times> real \<times> string) list \<Rightarrow> (string \<times> real) option" where
  "overall_confidence cfg results =
     (let ws = INDICATOR_WEIGHTS cfg;
          (call_weight, put_weight) = vote ws results (0, 0)
      in if call_weight = 0 \<and> put_weight = 0 then None
         else
           let overall_direction = (if put_weight \<le> call_weight then ''CALL'' else ''PUT'');
               agreement_ratio =
                 (if 0 < call_weight + put_weight
                  then (if put_weight \<le> call_weight then call_weight else put_weight)
                       / (call_weight + put_weight)
                  else 0);
               weighted_sum = sum_list (map (\<lambda>(ind, score, d). weights_get ws ind * score) results);
               max_possible = sum_list (map snd ws) * 100;
               confidence =
                 (if 0 < max_possible then weighted_sum / max_possible * 100 * agreement_ratio
                  else 0);
               agreeing = length (filter (\<lambda>(ind, score, d). d = overall_direction) results);
               boosted =
                 (if 5 \<le> agreeing then min 100 (confidence * (115 / 100))
                  else if 4 \<le> agreeing then min 100 (confidence * (105 / 100))
                  else confidence)
           in Some (overall_direction, boosted))"

text \<open>
  \<open>SignalEngine.analyze\<close>. The price history enters through what the method reads from
  it: \<open>n\<close> is \<open>len(df)\<close> (\<open>None\<close> for \<open>df is None\<close>), \<open>results\<close> are the
  (name, score, direction) triples that the six \<open>_analyze_*\<close> methods return on it, in
  the order \<open>analyze\<close> stores them, and \<open>current_price\<close> is the last close
  (\<open>None\<close> when reading it raises, which the method's handler turns into no signal).
\<close>

definition analyze ::
  "config \<Rightarrow> datetime \<Rightarrow> string \<Rightarrow> nat option \<Rightarrow> (string \<times> real \<times> string) list \<Rightarrow>
   real option \<Rightarrow> string \<Rightarrow> Signal option" where
  "analyze cfg now symbol n results current_price timeframe =
     (case n of
        None \<Rightarrow> None
      | Some len \<Rightarrow>
          if len < 50 then None
          else (case overall_confidence cfg results of
                  None \<Rightarrow> None
                | Some (overall_direction, confidence) \<Rightarrow>
                    (case current_price of
                       None \<Rightarrow> None
                     | Some p \<Rightarrow>
                         if MIN_SIGNAL_CONFIDENCE cfg \<le> confidence
                         then Some (Signal_init symbol overall_direction confidence results p timeframe now)
                         else None)))"

text \<open>
  \<open>SignalEngine._analyze_ema_cross\<close> on the two EMA series the indicator library
  returns (\<open>None\<close> is NaN). \<open>iloc[-1]\<close> and \<open>iloc[-2]\<close> raise on a series shorter
  than two, and the method's handler returns the neutral result. A comparison with NaN is
  false.
\<close>

definition nan_le :: "real option \<Rightarrow> real option \<Rightarrow> bool" where
  "nan_le a b = (case a of None \<Rightarrow> False | Some x \<Rightarrow> (case b of None \<Rightarrow> False | Some y \<Rightarrow> x \<le> y))"

definition iloc_neg :: "'a list \<Rightarrow> nat \<Rightarrow> 'a option" where
  "iloc_neg xs k = (if 0 < k \<and> k \<le> length xs then Some (xs ! (length xs - k)) else None)"

definition analyze_ema_cross :: "real option list \<Rightarrow> real option list \<Rightarrow> real \<times> string" where
  "analyze_ema_cross ema_fast ema_slow =
     (case (iloc_neg ema_fast 1, iloc_neg ema_slow 1, iloc_neg ema_fast 2, iloc_neg ema_slow 2) of
        (Some fast_now', Some slow_now', Some fast_prev, Some slow_prev) \<Rightarrow>
          (case (fast_now', slow_now') of
             (Some fast_now, Some slow_now) \<Rightarrow>
               if nan_le fast_prev slow_prev \<and> slow_now < fast_now then (90, ''CALL'')
               else if nan_le slow_prev fast_prev \<and> fast_now < slow_now then (90, ''PUT'')
               else
                 let gap_pct = (if slow_now \<noteq> 0 then \<bar>fast_now - slow_now\<bar> / slow_now * 100 else 0)
                 in if slow_now < fast_now then (min 70 (40 + gap_pct * 100), ''CALL'')
                    else if fast_now < slow_now then (min 70 (40 + gap_pct * 100), ''PUT'')
                    else (0, ''NEUTRAL'')
           | _ \<Rightarrow> (0, ''NEUTRAL''))
      | _ \<Rightarrow> (0, ''NEUTRAL''))"

text \<open>\<open>SignalEngine.__init__\<close> only stores the configured weights.\<close>

definition SignalEngine_init :: "config \<Rightarrow> (string \<times> real) list" where
  "SignalEngine_init cfg = INDICATOR_WEIGHTS cfg"

section \<open>core/trader.py\<close>

record Trade =
  trade_id :: int
  symbol :: string
  direction :: string
  entry_price :: real
  stake :: real
  confidence :: real
  entry_time :: datetime
  expiry_time :: datetime
  exit_price :: "real option"
  result :: "string option"
  pnl :: real
  resolved :: bool

text \<open>The constructor call of \<open>process_signal\<close>: \<open>__post_init__\<close> sets the expiry.\<close>

definition Trade_new :: "config \<Rightarrow> datetime \<Rightarrow> int \<Rightarrow> string \<Rightarrow> string \<Rightarrow> real \<Rightarrow> real \<Rightarrow> real \<Rightarrow> Trade" where
  "Trade_new cfg now i smb dir ep stk conf =
     \<lparr>trade_id = i, symbol = smb, direction = dir, entry_price = ep, stake = stk,
      confidence = conf, entry_time = now,
      expiry_time = now + minutes (TRADE_EXPIRY_MINUTES cfg),
      exit_price = None, result = None, pnl = 0, resolved = False\<rparr>"

definition is_expired :: "datetime \<Rightarrow> Trade \<Rightarrow> bool" where
  "is_expired now t \<longleftrightarrow> expiry_time t \<le> now"

datatype action = PENDING | BLOCKED reason | EXECUTED real

record log_entry =
  log_timestamp :: datetime
  log_symbol :: string
  log_direction :: string
  log_confidence :: real
  log_price :: real
  log_action :: action

record TradingEngine =
  risk_manager :: RiskManager
  active_trades :: "Trade list"
  completed_trades :: "Trade list"
  trade_counter :: int
  signal_log :: "log_entry list"

definition TradingEngine_init :: "RiskManager \<Rightarrow> TradingEngine" where
  "TradingEngine_init rm =
     \<lparr>risk_manager = rm, active_trades = [], completed_trades = [], trade_counter = 0,
      signal_log = []\<rparr>"

definition process_signal :: "config \<Rightarrow> datetime \<Rightarrow> Signal \<Rightarrow> TradingEngine \<Rightarrow> Trade option \<times> TradingEngine" where
  "process_signal cfg now sg e =
     (let entry = \<lparr>log_timestamp = now, log_symbol = sig_symbol sg,
                   log_direction = sig_direction sg, log_confidence = sig_confidence sg,
                   log_price = sig_price sg, log_action = PENDING\<rparr>;
          (ok, why, rm) = can_trade cfg now (risk_manager e)
      in if \<not> ok
         then (None, e\<lparr>risk_manager := rm,
                       signal_log := signal_log e @ [entry\<lparr>log_action := BLOCKED why\<rparr>]\<rparr>)
         else
           let stk = calculate_position_size cfg rm;
               trade = Trade_new cfg now (trade_counter e + 1) (sig_symbol sg) (sig_direction sg)
                         (sig_price sg) stk (sig_confidence sg)
           in (Some trade,
               e\<lparr>risk_manager := open_trade rm,
                 active_trades := active_trades e @ [trade],
                 trade_counter := trade_counter e + 1,
                 signal_log := signal_log e @ [entry\<lparr>log_action := EXECUTED stk\<rparr>]\<rparr>))"

text \<open>
  \<open>_resolve_trade\<close> returns the updated trade and risk manager; with no exit price it
  returns at once.
\<close>

definition resolve_trade :: "config \<Rightarrow> datetime \<Rightarrow> Trade \<Rightarrow> RiskManager \<Rightarrow> Trade \<times> RiskManager" where
  "resolve_trade cfg now t rm =
     (case exit_price t of
        None \<Rightarrow> (t, rm)
      | Some xp \<Rightarrow>
          let won = (if direction t = ''CALL'' then entry_price t < xp else xp < entry_price t);
              t1 = t\<lparr>resolved := True\<rparr>;
              t2 = (if won then t1\<lparr>result := Some ''WIN'', pnl := stake t * PAYOUT_RATE cfg\<rparr>
                    else t1\<lparr>result := Some ''LOSS'', pnl := - stake t\<rparr>)
          in (t2,
              record_trade_result cfg now won (stake t)
                (Some \<lparr>ti_symbol = symbol t, ti_direction = direction t,
                       ti_entry_price = entry_price t, ti_exit_price = xp,
                       ti_confidence = confidence t\<rparr>)
                rm))"

text \<open>
  The loop of \<open>check_and_resolve_trades\<close> over the active trades; the state it threads is
  the risk manager, \<open>still_active\<close> and \<open>completed_trades\<close>.
\<close>

fun resolve_loop ::
  "config \<Rightarrow> datetime \<Rightarrow> (string \<rightharpoonup> real) \<Rightarrow> Trade list \<Rightarrow>
   RiskManager \<times> Trade list \<times> Trade list \<Rightarrow> RiskManager \<times> Trade list \<times> Trade list" where
  "resolve_loop cfg now current_prices [] acc = acc"
| "resolve_loop cfg now current_prices (t # ts) (rm, still_active, completed) =
     (if is_expired now t
      then (case current_prices (symbol t) of
              None \<Rightarrow>
                resolve_loop cfg now current_prices ts
                  (rm, still_active @ [t\<lparr>expiry_time := expiry_time t + minutes 1\<rparr>], completed)
            | Some xp \<Rightarrow>
                (case resolve_trade cfg now (t\<lparr>exit_price := Some xp\<rparr>) rm of
                   (t', rm') \<Rightarrow>
                     resolve_loop cfg now current_prices ts
                       (close_trade rm', still_active, completed @ [t'])))
      else resolve_loop cfg now current_prices ts (rm, still_active @ [t], completed))"

definition check_and_resolve_trades ::
  "config \<Rightarrow> datetime \<Rightarrow> (string \<rightharpoonup> real) \<Rightarrow> TradingEngine \<Rightarrow> TradingEngine" where
  "check_and_resolve_trades cfg now current_prices e =
     (case resolve_loop cfg now current_prices (active_trades e)
             (risk_manager e, [], completed_trades e) of
        (rm, still_active, completed) \<Rightarrow>
          e\<lparr>risk_manager := rm, active_trades := still_active, completed_trades := completed\<rparr>)"

text \<open>\<open>max(..., default=0)\<close> and \<open>min(..., default=0)\<close> over a generator.\<close>

definition max_default :: "real list \<Rightarrow> real \<Rightarrow> real" where
  "max_default xs d = (case xs of [] \<Rightarrow> d | x # rest \<Rightarrow> foldl max x rest)"

definition min_default :: "real list \<Rightarrow> real \<Rightarrow> real" where
  "min_default xs d = (case xs of [] \<Rightarrow> d | x # rest \<Rightarrow> foldl min x rest)"

record stats =
  st_total_trades :: nat
  st_wins :: nat
  st_losses :: nat
  st_win_rate :: real
  st_total_pnl :: real
  st_active_count :: nat
  st_best_trade :: real
  st_worst_trade :: real

text \<open>
  Python's \<open>/\<close> raises on a zero divisor; \<open>get_stats\<close> returns its dictionary or
  the exception.
\<close>

datatype exn = Raised string

definition py_truediv :: "real \<Rightarrow> real \<Rightarrow> exn + real" where
  "py_truediv a b = (if b = 0 then Inl (Raised ''ZeroDivisionError'') else Inr (a / b))"

definition get_stats :: "TradingEngine \<Rightarrow> exn + stats" where
  "get_stats e =
     (let total = length (completed_trades e);
          w = length (filter (\<lambda>t. result t = Some ''WIN'') (completed_trades e));
          l = length (filter (\<lambda>t. result t = Some ''LOSS'') (completed_trades e));
          total_pnl' = sum_list (map pnl (completed_trades e))
      in case (if 0 < total
               then (case py_truediv (real w) (real total) of
                       Inl x \<Rightarrow> Inl x
                     | Inr q \<Rightarrow> Inr (q * 100))
               else Inr 0) of
           Inl x \<Rightarrow> Inl x
         | Inr win_rate \<Rightarrow>
             Inr \<lparr>st_total_trades = total,
                  st_wins = w,
                  st_losses = l,
                  st_win_rate = win_rate,
                  st_total_pnl = total_pnl',
                  st_active_count = length (active_trades e),
                  st_best_trade = max_default (map pnl (completed_trades e)) 0,
                  st_worst_trade = min_default (map pnl (completed_trades e)) 0\<rparr>)"

text \<open>
  \<open>simulate_demo_losses\<close>: each round builds a losing demo trade and records it if the
  risk manager allows a trade, stopping at the first refusal.
\<close>

fun simulate_demo_losses :: "config \<Rightarrow> datetime \<Rightarrow> nat \<Rightarrow> TradingEngine \<Rightarrow> TradingEngine" where
  "simulate_demo_losses cfg now 0 e = e"
| "simulate_demo_losses cfg now (Suc k) e =
     (case can_trade cfg now (risk_manager e) of
        (ok, why, rm) \<Rightarrow>
          let stk = calculate_position_size cfg rm;
              cnt = trade_counter e + 1;
              trade = \<lparr>trade_id = cnt, symbol = ''DEMO'', direction = ''CALL'', entry_price = 1,
                       stake = stk, confidence = 75,
                       entry_time = now - minutes (TRADE_EXPIRY_MINUTES cfg + 1),
                       expiry_time = now - minutes (TRADE_EXPIRY_MINUTES cfg + 1)
                                     + minutes (TRADE_EXPIRY_MINUTES cfg),
                       exit_price = Some (999 / 1000), result = Some ''LOSS'', pnl = - stk,
                       resolved = True\<rparr>
          in if ok
             then simulate_demo_losses cfg now k
                    (e\<lparr>risk_manager :=
                         record_trade_result cfg now False stk
                           (Some \<lparr>ti_symbol = ''DEMO'', ti_direction = ''CALL'', ti_entry_price = 1,
                                  ti_exit_price = 999 / 1000, ti_confidence = 75\<rparr>) rm,
                       completed_trades := completed_trades e @ [trade],
                       trade_counter := cnt\<rparr>)
             else e\<lparr>risk_manager := rm, trade_counter := cnt\<rparr>)"

section \<open>Start-up and the operations a session performs\<close>

text \<open>
  The session initialisation of \<open>app.py\<close> constructs the signal engine, the risk manager
  (with \<open>balance=config.INITIAL_BALANCE\<close>) and the trading engine. Its outcome is either a
  raised exception or the constructed components; none of the three constructors has a
  branch that raises.
\<close>

definition initialize :: "config \<Rightarrow> datetime \<Rightarrow> exn + ((string \<times> real) list \<times> TradingEngine)" where
  "initialize cfg now =
     Inr (SignalEngine_init cfg,
          TradingEngine_init (RiskManager_init cfg (Some (INITIAL_BALANCE cfg)) now))"

text \<open>
  The states a trading engine can be in: freshly constructed over a fresh risk manager,
  or obtained from such a state by one of the operations the application calls on the
  engine or on its risk manager (\<open>get_status\<close> changes the risk manager as \<open>can_trade\<close>
  does), each at any clock reading.
\<close>

inductive reachable :: "config \<Rightarrow> TradingEngine \<Rightarrow> bool" for cfg :: config where
  r_init: "reachable cfg (TradingEngine_init (RiskManager_init cfg b now))"
| r_signal: "reachable cfg e \<Longrightarrow> reachable cfg (snd (process_signal cfg now sg e))"
| r_resolve: "reachable cfg e \<Longrightarrow> reachable cfg (check_and_resolve_trades cfg now prices e)"
| r_demo: "reachable cfg e \<Longrightarrow> reachable cfg (simulate_demo_losses cfg now k e)"
| r_status: "reachable cfg e \<Longrightarrow>
     reachable cfg (e\<lparr>risk_manager := snd (snd (can_trade cfg now (risk_manager e)))\<rparr>)"

text \<open>
  The trades the engine holds that are not resolved, and the agreement between the two
  lists and the flag: active trades are unresolved, completed ones resolved.
\<close>

definition unresolved_held :: "TradingEngine \<Rightarrow> Trade list" where
  "unresolved_held e = filter (\<lambda>t. \<not> resolved t) (active_trades e @ completed_trades e)"

definition ledger_inv :: "TradingEngine \<Rightarrow> bool" where
  "ledger_inv e \<longleftrightarrow>
     open_trades_count (risk_manager e) = int (length (active_trades e)) \<and>
     list_all (\<lambda>t. \<not> resolved t) (active_trades e) \<and>
     list_all resolved (completed_trades e)"

text \<open>The reasons with which rules 1 to 4 of \<open>can_trade\<close> block.\<close>

fun rule_1_to_4_block :: "reason \<Rightarrow> bool" where
  "rule_1_to_4_block (BALANCE_TOO_LOW _ _) = True"
| "rule_1_to_4_block (DAILY_LOSS_LIMIT _ _) = True"
| "rule_1_to_4_block (COOLDOWN_ACTIVE _ _) = True"
| "rule_1_to_4_block (MAX_OPEN_TRADES_REACHED _ _) = True"
| "rule_1_to_4_block (POSITION_TOO_SMALL _) = False"
| "rule_1_to_4_block ALL_CHECKS_PASSED = False"

section \<open>Concrete scenarios\<close>

text \<open>
  Scenario D of the specification: a PUT trade entered at 1.10000 whose exit price is the
  same 1.10000.
\<close>

definition scenario_D :: Trade where
  "scenario_D = (Trade_new default_config 0 1 ''EUR/USD'' ''PUT'' (11 / 10) (4 / 10) 75)
                  \<lparr>exit_price := Some (11 / 10)\<rparr>"

text \<open>
  A fresh default risk manager after three losing trades in a row, ten seconds apart: the
  losing streak has reached the configured maximum and the cooldown is set.
\<close>

definition three_losses :: RiskManager where
  "three_losses = record_all default_config
     [(0, False, 4 / 10), (10, False, 39 / 100), (20, False, 38 / 100)]
     (RiskManager_init default_config None 0)"

text \<open>
  The same three losses with the stakes as the floats 0.4, 0.39 and 0.38.
\<close>

definition float_losses :: "(datetime \<times> bool \<times> real) list" where
  "float_losses =
     [(0, False, fl64 (4 / 10)), (10, False, fl64 (39 / 100)), (20, False, fl64 (38 / 100))]"

text \<open>
  A signal of confidence 92 for EUR/USD, and the engine after a fresh default risk manager
  has accepted it at second 0: one trade is open.
\<close>

definition signal0 :: Signal where
  "signal0 = \<lparr>sig_symbol = ''EUR/USD'', sig_direction = ''CALL'', sig_confidence = 92,
               sig_indicators = [], sig_price = 11 / 10, sig_timeframe = ''5m'',
               sig_timestamp = 0\<rparr>"

definition one_open_trade :: TradingEngine where
  "one_open_trade = snd (process_signal default_config 0 signal0
      (TradingEngine_init (RiskManager_init default_config None 0)))"

text \<open>
  Six indicator results that all vote CALL.
\<close>

definition six_calls :: "(string \<times> real \<times> string) list" where
  "six_calls =
     [(''rsi'', 80, ''CALL''), (''macd'', 85, ''CALL''), (''bollinger'', 80, ''CALL''),
      (''ema_cross'', 90, ''CALL''), (''stochastic'', 85, ''CALL''),
      (''support_resistance'', 70, ''CALL'')]"

text \<open>
  Six CALL votes whose confidence comes to 70.0465, and the shipped configuration with the
  minimum confidence set to 70.04.
\<close>

definition marginal_calls :: "(string \<times> real \<times> string) list" where
  "marginal_calls =
     [(''rsi'', 603 / 10, ''CALL''), (''macd'', 65, ''CALL''), (''bollinger'', 55, ''CALL''),
      (''ema_cross'', 58, ''CALL''), (''stochastic'', 60, ''CALL''),
      (''support_resistance'', 70, ''CALL'')]"

definition config_7004 :: config where
  "config_7004 = default_config\<lparr>MIN_SIGNAL_CONFIDENCE := 7004 / 100\<rparr>"

text \<open>
  The trades a call of \<open>check_and_resolve_trades\<close> resolves: those that are expired and
  whose symbol has a current price.
\<close>

definition resolves :: "datetime \<Rightarrow> (string \<rightharpoonup> real) \<Rightarrow> Trade \<Rightarrow> bool" where
  "resolves now current_prices t \<longleftrightarrow> is_expired now t \<and> current_prices (symbol t) \<noteq> None"

section \<open>Properties of the risk manager\<close>

subsection \<open>Balance accounting\<close>

lemma reset_balance: "balance (reset_daily_stats now s) = balance s"
  by (simp add: reset_daily_stats_def)

lemma reset_initial_balance: "initial_balance (reset_daily_stats now s) = initial_balance s"
  by (simp add: reset_daily_stats_def)

lemma reset_trade_history: "trade_history (reset_daily_stats now s) = trade_history s"
  by (simp add: reset_daily_stats_def)

lemma record_balance:
  "balance (record_trade_result cfg now won amount info s) =
     fl64 (balance s + trade_pnl cfg (now, won, amount))"
  by (simp add: record_trade_result_def Let_def reset_balance trade_pnl_def)

lemma record_initial_balance:
  "initial_balance (record_trade_result cfg now won amount info s) = initial_balance s"
  by (simp add: record_trade_result_def Let_def reset_initial_balance)

lemma record_history_pnl:
  "map h_pnl (trade_history (record_trade_result cfg now won amount info s)) =
     map h_pnl (trade_history s) @ [trade_pnl cfg (now, won, amount)]"
  by (simp add: record_trade_result_def Let_def reset_trade_history trade_pnl_def)

lemma record_all_balance:
  "balance (record_all cfg trades s) = accumulate (balance s) (map (trade_pnl cfg) trades)"
proof (induction trades arbitrary: s)
  case Nil
  show ?case by (simp add: accumulate_def)
next
  case (Cons tr trades)
  obtain now won amount where tr: "tr = (now, won, amount)"
    by (cases tr) auto
  have "balance (record_all cfg (tr # trades) s) =
          accumulate (balance (record_trade_result cfg now won amount None s))
            (map (trade_pnl cfg) trades)"
    by (simp add: tr Cons.IH)
  also have "\<dots> = accumulate (fl64 (balance s + trade_pnl cfg tr)) (map (trade_pnl cfg) trades)"
    by (simp only: record_balance tr)
  also have "\<dots> = accumulate (balance s) (map (trade_pnl cfg) (tr # trades))"
    by (simp add: accumulate_def)
  finally show ?case .
qed

lemma record_all_initial_balance:
  "initial_balance (record_all cfg trades s) = initial_balance s"
proof (induction trades arbitrary: s)
  case Nil
  show ?case by simp
next
  case (Cons tr trades)
  obtain now won amount where tr: "tr = (now, won, amount)"
    by (cases tr) auto
  show ?case
    by (simp add: tr Cons.IH record_initial_balance)
qed

lemma record_all_history_pnl:
  "map h_pnl (trade_history (record_all cfg trades s)) =
     map h_pnl (trade_history s) @ map (trade_pnl cfg) trades"
proof (induction trades arbitrary: s)
  case Nil
  show ?case by simp
next
  case (Cons tr trades)
  obtain now won amount where tr: "tr = (now, won, amount)"
    by (cases tr) auto
  have "map h_pnl (trade_history (record_all cfg (tr # trades) s)) =
          map h_pnl (trade_history (record_trade_result cfg now won amount None s))
            @ map (trade_pnl cfg) trades"
    by (simp add: tr Cons.IH)
  also have "\<dots> = (map h_pnl (trade_history s) @ [trade_pnl cfg tr]) @ map (trade_pnl cfg) trades"
    by (simp only: record_history_pnl tr)
  finally show ?case by simp
qed

lemma init_balance: "balance (RiskManager_init cfg b now) = initial_balance (RiskManager_init cfg b now)"
  by (simp add: RiskManager_init_def Let_def reset_daily_stats_def)

lemma init_history: "trade_history (RiskManager_init cfg b now) = []"
  by (simp add: RiskManager_init_def Let_def reset_daily_stats_def)

text \<open>
  Evaluating \<open>fl64\<close> at a number whose binade is known.
\<close>

lemma fl64_at:
  assumes "2 powi e \<le> \<bar>x\<bar>" and "\<bar>x\<bar> < 2 powi (e + 1)" and "- 1022 \<le> e"
  shows "fl64 x = of_int (round_half_even (x / 2 powi (e - 52))) * 2 powi (e - 52)"
proof -
  have "(0::real) < 2 powi e" by simp
  with assms(1) have pos: "0 < \<bar>x\<bar>" by linarith
  then have nz: "x \<noteq> 0" by auto
  have "(2::real) powr of_int e \<le> \<bar>x\<bar> \<and> \<bar>x\<bar> < 2 powr (of_int e + 1)"
    using assms(1,2) powr_real_of_int' [of "2::real" e] powr_real_of_int' [of "2::real" "e + 1"]
    by simp
  then have "\<lfloor>log 2 \<bar>x\<bar>\<rfloor> = e"
    using floor_log_eq_powr_iff [of "\<bar>x\<bar>" 2 e] pos by simp
  then show ?thesis
    using nz assms(3) by (simp add: fl64_def Let_def max_def)
qed

lemma float_04: "fl64 (2 / 5) = 3602879701896397 / 9007199254740992"
  by (subst fl64_at [where e = "- 2"]) (simp_all add: round_half_even_def Let_def)

lemma float_039: "fl64 (39 / 100) = 3512807709348987 / 9007199254740992"
  by (subst fl64_at [where e = "- 2"]) (simp_all add: round_half_even_def Let_def)

lemma float_038: "fl64 (19 / 50) = 3422735716801577 / 9007199254740992"
  by (subst fl64_at [where e = "- 2"]) (simp_all add: round_half_even_def Let_def)

lemma float_losses_pnl:
  "map (trade_pnl default_config) float_losses =
     [- (3602879701896397 / 9007199254740992), - (3512807709348987 / 9007199254740992),
      - (3422735716801577 / 9007199254740992)]"
  by (simp add: float_losses_def trade_pnl_def float_04 float_039 float_038)

lemma balance_step_1:
  "fl64 (20 + - (3602879701896397 / 9007199254740992)) = 2758454771764429 / 140737488355328"
  by (subst fl64_at [where e = 4]) (simp_all add: round_half_even_def Let_def)

lemma balance_step_2:
  "fl64 (2758454771764429 / 140737488355328 + - (3512807709348987 / 9007199254740992))
     = 2703567151305851 / 140737488355328"
  by (subst fl64_at [where e = 4]) (simp_all add: round_half_even_def Let_def)

lemma balance_step_3:
  "fl64 (2703567151305851 / 140737488355328 + - (3422735716801577 / 9007199254740992))
     = 5300173811461653 / 281474976710656"
  by (subst fl64_at [where e = 4]) (simp_all add: round_half_even_def Let_def)

lemma float_losses_balance:
  "accumulate 20 (map (trade_pnl default_config) float_losses) = 5300173811461653 / 281474976710656"
  unfolding float_losses_pnl accumulate_def
  by (simp only: foldl.simps balance_step_1 balance_step_2 balance_step_3)

lemma sum_step_1:
  "fl64 (0 + - (3602879701896397 / 9007199254740992)) = - (3602879701896397 / 9007199254740992)"
  by (subst fl64_at [where e = "- 2"]) (simp_all add: round_half_even_def Let_def)

lemma sum_step_2:
  "fl64 (- (3602879701896397 / 9007199254740992) + - (3512807709348987 / 9007199254740992))
     = - (889460926405673 / 1125899906842624)"
  by (subst fl64_at [where e = "- 1"]) (simp_all add: round_half_even_def Let_def)

lemma sum_step_3:
  "fl64 (- (889460926405673 / 1125899906842624) + - (3422735716801577 / 9007199254740992))
     = - (658651445502935 / 562949953421312)"
  by (subst fl64_at [where e = 0]) (simp_all add: round_half_even_def Let_def)

lemma float_losses_sum:
  "accumulate 0 (map (trade_pnl default_config) float_losses) = - (658651445502935 / 562949953421312)"
  unfolding float_losses_pnl accumulate_def
  by (simp only: foldl.simps sum_step_1 sum_step_2 sum_step_3)

lemma sum_step_4:
  "fl64 (20 + - (658651445502935 / 562949953421312)) = 5300173811461652 / 281474976710656"
  by (subst fl64_at [where e = 4]) (simp_all add: round_half_even_def Let_def)

lemma fresh_initial_balance:
  "initial_balance (RiskManager_init default_config None 0) = 20"
  by (simp add: RiskManager_init_def default_config_def reset_daily_stats_def Let_def)

text \<open>
  C1, as stated, fails: the balance is accumulated in floating point, one trade at a time.
  A fresh default risk manager (balance 20.0) that records losses of 0.4, 0.39 and 0.38
  ends with the float 18.830000000000002, that is \<open>5300173811461653 / 2^48\<close>. The
  initial balance plus the sum of the three pnl is another number, whether the sum is
  exact or is taken in floating point as Python's \<open>sum\<close> takes it (then it is the float
  18.83, one unit in the last place below).
\<close>

theorem balance_float_sum_counterexample:
  "balance (record_all default_config float_losses (RiskManager_init default_config None 0))
     = 5300173811461653 / 281474976710656
   \<and> initial_balance (record_all default_config float_losses (RiskManager_init default_config None 0))
       + sum_list (map (trade_pnl default_config) float_losses)
     = 169605561966772879 / 9007199254740992
   \<and> fl64 (initial_balance (record_all default_config float_losses
                               (RiskManager_init default_config None 0))
            + accumulate 0 (map (trade_pnl default_config) float_losses))
     = 5300173811461652 / 281474976710656
   \<and> balance (record_all default_config float_losses (RiskManager_init default_config None 0))
     \<noteq> initial_balance (record_all default_config float_losses (RiskManager_init default_config None 0))
       + sum_list (map (trade_pnl default_config) float_losses)
   \<and> balance (record_all default_config float_losses (RiskManager_init default_config None 0))
     \<noteq> fl64 (initial_balance (record_all default_config float_losses
                                 (RiskManager_init default_config None 0))
              + accumulate 0 (map (trade_pnl default_config) float_losses))"
proof -
  have b: "balance (record_all default_config float_losses (RiskManager_init default_config None 0))
             = 5300173811461653 / 281474976710656"
    by (simp only: record_all_balance init_balance fresh_initial_balance float_losses_balance)
  have i: "initial_balance (record_all default_config float_losses
                              (RiskManager_init default_config None 0)) = 20"
    by (simp only: record_all_initial_balance fresh_initial_balance)
  have e: "20 + sum_list (map (trade_pnl default_config) float_losses)
             = (169605561966772879 / 9007199254740992 :: real)"
    unfolding float_losses_pnl by simp
  have f: "fl64 (20 + accumulate 0 (map (trade_pnl default_config) float_losses))
             = 5300173811461652 / 281474976710656"
    by (simp only: float_losses_sum sum_step_4)
  show ?thesis
    unfolding b i e f by simp
qed

text \<open>
  C1, amended. After any sequence of resolved trades recorded through
  \<open>record_trade_result\<close> on a freshly constructed risk manager, wins and losses in any
  order, the balance is the initial balance with the trades' pnl added to it one after the
  other, each addition rounded to binary64 (the pnl being the float product of stake and
  payout rate for a win and minus the stake for a loss); the pnl entries the method appends
  to \<open>trade_history\<close> are those same amounts, in order.
\<close>

theorem balance_accumulates_pnl:
  "balance (record_all cfg trades (RiskManager_init cfg b now0)) =
     accumulate (initial_balance (record_all cfg trades (RiskManager_init cfg b now0)))
       (map (trade_pnl cfg) trades)
   \<and> map h_pnl (trade_history (record_all cfg trades (RiskManager_init cfg b now0)))
       = map (trade_pnl cfg) trades"
  by (simp add: record_all_balance record_all_initial_balance record_all_history_pnl
      init_balance init_history)

subsection \<open>Losing streak and cooldown\<close>

lemma three_losses_stats:
  "consecutive_losses (daily_stats three_losses) = 3
   \<and> cooldown_until (daily_stats three_losses) = Some 620
   \<and> date (daily_stats three_losses) = Some 0"
  by (simp add: three_losses_def record_trade_result_def RiskManager_init_def
      reset_daily_stats_def default_config_def Let_def DailyStats_new_def date_of_def minutes_def)

text \<open>
  C4, as stated, fails: the cooldown is also set by a loss that takes the streak beyond the
  maximum. After three losses in a row (streak 3, the maximum; cooldown until second 620) a
  fourth loss recorded at second 30 makes the streak 4 and sets the cooldown again, to
  \<open>30 + 600\<close>. And a loss recorded on the next day, after the day rollover has cleared the
  streak, leaves it at 1, not at one more than before the call.
\<close>

theorem cooldown_on_fourth_loss_counterexample:
  "consecutive_losses (daily_stats three_losses) = MAX_CONSECUTIVE_LOSSES default_config
   \<and> cooldown_until (daily_stats three_losses) = Some 620
   \<and> consecutive_losses (daily_stats
        (record_trade_result default_config 30 False (38 / 100) None three_losses)) = 4
   \<and> cooldown_until (daily_stats
        (record_trade_result default_config 30 False (38 / 100) None three_losses))
       = Some (30 + minutes (COOLDOWN_MINUTES default_config))
   \<and> consecutive_losses (daily_stats
        (record_trade_result default_config 86400 False (38 / 100) None three_losses)) = 1"
  using three_losses_stats
  by (simp add: record_trade_result_def reset_daily_stats_def Let_def date_of_def minutes_def
      default_config_def DailyStats_new_def)

text \<open>
  C4, amended. \<open>record_trade_result\<close> first performs the lazy day rollover. Counted from
  the state after it, a win resets \<open>consecutive_losses\<close> to 0 and leaves \<open>cooldown_until\<close>
  as it is; a loss increments \<open>consecutive_losses\<close> by exactly 1, and sets
  \<open>cooldown_until\<close> to \<open>now\<close> plus the cooldown duration when, and only when, the
  incremented count is at least the configured maximum.
\<close>

theorem record_trade_result_streak:
  "consecutive_losses (daily_stats (record_trade_result cfg now won amount info s)) =
      (if won then 0 else consecutive_losses (daily_stats (reset_daily_stats now s)) + 1)
   \<and> cooldown_until (daily_stats (record_trade_result cfg now won amount info s)) =
      (if \<not> won \<and> MAX_CONSECUTIVE_LOSSES cfg
                     \<le> consecutive_losses (daily_stats (reset_daily_stats now s)) + 1
       then Some (now + minutes (COOLDOWN_MINUTES cfg))
       else cooldown_until (daily_stats (reset_daily_stats now s)))"
  by (simp add: record_trade_result_def Let_def)

subsection \<open>The minimum stake rule\<close>

lemma round_half_even_ge: "of_int k \<le> x \<Longrightarrow> k \<le> round_half_even x"
proof -
  assume "of_int k \<le> x"
  then have "k \<le> \<lfloor>x\<rfloor>" by (simp add: le_floor_iff)
  then show ?thesis by (simp add: round_half_even_def Let_def)
qed

lemma py_round_ge:
  assumes "of_int k / 10 ^ n \<le> x"
  shows "of_int k / 10 ^ n \<le> py_round x n"
proof -
  have "of_int k \<le> x * 10 ^ n"
    using assms by (simp add: pos_divide_le_eq)
  then have "k \<le> round_half_even (x * 10 ^ n)"
    by (rule round_half_even_ge)
  then have "(of_int k :: real) \<le> of_int (round_half_even (x * 10 ^ n))"
    by simp
  then show ?thesis
    by (simp add: py_round_def divide_right_mono)
qed

lemma position_size_ge:
  assumes "2 \<le> balance s" and "MAX_RISK_PER_TRADE cfg = 2 / 100"
  shows "4 / 100 \<le> calculate_position_size cfg s"
proof -
  have "of_int 4 / 10 ^ 2 \<le> balance s * (2 / 100)"
    using assms(1) by simp
  then have "of_int 4 / 10 ^ 2 \<le> py_round (balance s * (2 / 100)) 2"
    by (rule py_round_ge)
  then show ?thesis
    by (simp add: calculate_position_size_def assms(2))
qed

lemma can_trade_tail_cases:
  assumes "2 \<le> balance s" and "MAX_RISK_PER_TRADE cfg = 2 / 100"
  shows "can_trade_tail cfg s = (True, ALL_CHECKS_PASSED, s)
         \<or> can_trade_tail cfg s =
             (False, MAX_OPEN_TRADES_REACHED (open_trades_count s) (MAX_OPEN_TRADES cfg), s)"
  using position_size_ge [OF assms] by (auto simp: can_trade_tail_def Let_def)

lemma can_trade_tail_ok:
  assumes "2 \<le> balance s" and "MAX_RISK_PER_TRADE cfg = 2 / 100"
  shows "(fst (can_trade_tail cfg s) \<and> fst (snd (can_trade_tail cfg s)) = ALL_CHECKS_PASSED
            \<and> 4 / 100 \<le> calculate_position_size cfg (snd (snd (can_trade_tail cfg s))))
         \<or> (\<not> fst (can_trade_tail cfg s) \<and> rule_1_to_4_block (fst (snd (can_trade_tail cfg s))))"
  using can_trade_tail_cases [OF assms] position_size_ge [OF assms] by auto

text \<open>
  C9. With an initial balance of 20, a minimum balance ratio of 0.10 and a risk per trade
  of 0.02, \<open>can_trade\<close> never answers "position too small": it either allows the trade
  with "all checks passed", the position size then being at least 0.04, or blocks with the
  reason of one of the rules 1 to 4.
\<close>

theorem position_too_small_unreachable:
  assumes "initial_balance s = 20"
    and "MIN_BALANCE_RATIO cfg = 10 / 100"
    and "MAX_RISK_PER_TRADE cfg = 2 / 100"
  shows "(fst (can_trade cfg now s) \<and> fst (snd (can_trade cfg now s)) = ALL_CHECKS_PASSED
            \<and> 4 / 100 \<le> calculate_position_size cfg (snd (snd (can_trade cfg now s))))
         \<or> (\<not> fst (can_trade cfg now s) \<and> rule_1_to_4_block (fst (snd (can_trade cfg now s))))"
proof -
  define r where "r = reset_daily_stats now s"
  have ib: "initial_balance r = 20" and bal: "balance r = balance s"
    by (simp_all add: r_def reset_daily_stats_def assms(1))
  show ?thesis
  proof (cases "balance r < 2")
    case True
    then show ?thesis
      by (simp add: can_trade_def Let_def r_def [symmetric] ib assms(2))
  next
    case False
    then have b2: "2 \<le> balance r" by simp
    define r' where "r' = r\<lparr>daily_stats :=
        (daily_stats r)\<lparr>consecutive_losses := 0, cooldown_until := None\<rparr>\<rparr>"
    have b2': "2 \<le> balance r'" using b2 by (simp add: r'_def)
    note t1 = can_trade_tail_ok [OF b2 assms(3)]
    note t2 = can_trade_tail_ok [OF b2' assms(3)]
    show ?thesis
      using t1 t2 False
      by (simp add: can_trade_def Let_def r_def [symmetric] r'_def [symmetric] ib assms(2)
          split: option.split)
  qed
qed

theorem position_too_small_unreachable_witness:
  "initial_balance (RiskManager_init default_config None 0) = 20
   \<and> MIN_BALANCE_RATIO default_config = 10 / 100
   \<and> MAX_RISK_PER_TRADE default_config = 2 / 100
   \<and> fst (snd (can_trade default_config 0 (RiskManager_init default_config None 0)))
       = ALL_CHECKS_PASSED
   \<and> calculate_position_size default_config (RiskManager_init default_config None 0) = 4 / 10"
proof -
  have h1: "initial_balance (RiskManager_init default_config None 0) = 20"
    by (simp add: RiskManager_init_def default_config_def reset_daily_stats_def Let_def)
  have h2: "MIN_BALANCE_RATIO default_config = 10 / 100"
    and h3: "MAX_RISK_PER_TRADE default_config = 2 / 100"
    by (simp_all add: default_config_def)
  have ps: "calculate_position_size default_config (RiskManager_init default_config None 0) = 4 / 10"
    by (simp add: calculate_position_size_def py_round_def round_half_even_def
        RiskManager_init_def default_config_def reset_daily_stats_def Let_def)
  have ok: "fst (can_trade default_config 0 (RiskManager_init default_config None 0))"
    using ps
    by (simp add: can_trade_def can_trade_tail_def RiskManager_init_def reset_daily_stats_def
        Let_def DailyStats_new_def daily_loss_pct_def date_of_def default_config_def)
  from position_too_small_unreachable [OF h1 h2 h3, of 0] ok
  have "fst (snd (can_trade default_config 0 (RiskManager_init default_config None 0)))
          = ALL_CHECKS_PASSED"
    by simp
  with h1 h2 h3 ps show ?thesis by simp
qed

subsection \<open>Construction performs no validation\<close>

lemma reset_count: "open_trades_count (reset_daily_stats now s) = open_trades_count s"
  by (simp add: reset_daily_stats_def)

lemma can_trade_tail_blocked:
  "MAX_OPEN_TRADES cfg \<le> open_trades_count s \<Longrightarrow> \<not> fst (can_trade_tail cfg s)"
  by (simp add: can_trade_tail_def)

lemma can_trade_blocked:
  assumes "MAX_OPEN_TRADES cfg \<le> open_trades_count s"
  shows "\<not> fst (can_trade cfg now s)"
proof -
  define r where "r = reset_daily_stats now s"
  define r' where "r' = r\<lparr>daily_stats :=
        (daily_stats r)\<lparr>consecutive_losses := 0, cooldown_until := None\<rparr>\<rparr>"
  have "MAX_OPEN_TRADES cfg \<le> open_trades_count r"
    using assms by (simp add: r_def reset_count)
  then have t1: "\<not> fst (can_trade_tail cfg r)" and t2: "\<not> fst (can_trade_tail cfg r')"
    by (simp_all add: can_trade_tail_blocked r'_def)
  show ?thesis
    using t1 t2
    by (simp add: can_trade_def Let_def r_def [symmetric] r'_def [symmetric] split: option.split)
qed

text \<open>
  C8, as stated, fails: with \<open>MAX_OPEN_TRADES = 0\<close>, and with a negative indicator
  weight, start-up returns the constructed components and no error.
\<close>

theorem invalid_config_accepted_counterexample:
  "\<not> isl (initialize (default_config\<lparr>MAX_OPEN_TRADES := 0\<rparr>) 0)
   \<and> \<not> isl (initialize (default_config\<lparr>INDICATOR_WEIGHTS := [(''rsi'', - 1)]\<rparr>) 0)
   \<and> MAX_OPEN_TRADES (default_config\<lparr>MAX_OPEN_TRADES := 0\<rparr>) = 0
   \<and> weights_get (INDICATOR_WEIGHTS (default_config\<lparr>INDICATOR_WEIGHTS := [(''rsi'', - 1)]\<rparr>)) ''rsi'' < 0"
  by (simp add: initialize_def weights_get_def)

text \<open>
  C8, amended. Whatever the configuration, start-up succeeds: the signal engine holds the
  configured weights, the risk manager the configured initial balance, nothing is checked.
  With \<open>MAX_OPEN_TRADES\<close> zero or negative the system then runs and the risk manager
  refuses every trade.
\<close>

theorem initialize_never_validates:
  "initialize cfg now =
     Inr (INDICATOR_WEIGHTS cfg,
          TradingEngine_init (RiskManager_init cfg (Some (INITIAL_BALANCE cfg)) now))
   \<and> initial_balance (RiskManager_init cfg (Some (INITIAL_BALANCE cfg)) now) = INITIAL_BALANCE cfg
   \<and> (MAX_OPEN_TRADES cfg \<le> 0 \<longrightarrow>
        \<not> fst (can_trade cfg now' (RiskManager_init cfg (Some (INITIAL_BALANCE cfg)) now)))"
proof -
  have c0: "open_trades_count (RiskManager_init cfg (Some (INITIAL_BALANCE cfg)) now) = 0"
    by (simp add: RiskManager_init_def Let_def reset_count)
  have "\<not> fst (can_trade cfg now' (RiskManager_init cfg (Some (INITIAL_BALANCE cfg)) now))"
    if "MAX_OPEN_TRADES cfg \<le> 0"
    by (rule can_trade_blocked) (simp add: c0 that)
  then show ?thesis
    by (simp add: initialize_def SignalEngine_init_def RiskManager_init_def Let_def
        reset_daily_stats_def)
qed

theorem initialize_never_validates_witness:
  "MAX_OPEN_TRADES (default_config\<lparr>MAX_OPEN_TRADES := 0\<rparr>) \<le> 0
   \<and> \<not> fst (can_trade (default_config\<lparr>MAX_OPEN_TRADES := 0\<rparr>) 0
              (RiskManager_init (default_config\<lparr>MAX_OPEN_TRADES := 0\<rparr>)
                 (Some (INITIAL_BALANCE (default_config\<lparr>MAX_OPEN_TRADES := 0\<rparr>))) 0))"
proof -
  have h: "MAX_OPEN_TRADES (default_config\<lparr>MAX_OPEN_TRADES := 0\<rparr>) \<le> 0" by simp
  from initialize_never_validates [where cfg = "default_config\<lparr>MAX_OPEN_TRADES := 0\<rparr>"
      and now = 0 and now' = 0] h
  show ?thesis by simp
qed

section \<open>Properties of the signal engine\<close>

subsection \<open>The confidence floor\<close>

lemma analyze_Some:
  assumes "analyze cfg now smb n results current_price timeframe = Some sg"
  shows "\<exists>d c. overall_confidence cfg results = Some (d, c)
               \<and> MIN_SIGNAL_CONFIDENCE cfg \<le> c
               \<and> sig_confidence sg = py_round c 1 \<and> sig_direction sg = d"
  using assms
  by (auto simp: analyze_def Signal_init_def split: option.splits if_splits)

lemma marginal_calls_confidence:
  "overall_confidence config_7004 marginal_calls = Some (''CALL'', 700465 / 10000)"
  by (simp add: overall_confidence_def marginal_calls_def config_7004_def default_config_def
      weights_get_def Let_def)

text \<open>
  C3, as stated, fails for a configured minimum with more than one decimal digit: the test
  is made on the computed confidence and the signal stores it rounded to one decimal. With
  the minimum set to 70.04 and a computed confidence of 70.0465 the method returns a signal
  of confidence 70.0.
\<close>

theorem rounded_confidence_below_minimum_counterexample:
  "overall_confidence config_7004 marginal_calls = Some (''CALL'', 700465 / 10000)
   \<and> MIN_SIGNAL_CONFIDENCE config_7004 = 7004 / 100
   \<and> map_option sig_confidence
        (analyze config_7004 0 ''EUR/USD'' (Some 200) marginal_calls (Some (11 / 10)) ''5m'')
       = Some 70
   \<and> (70 :: real) < MIN_SIGNAL_CONFIDENCE config_7004"
proof -
  have m: "MIN_SIGNAL_CONFIDENCE config_7004 = 7004 / 100"
    by (simp add: config_7004_def)
  have "map_option sig_confidence
        (analyze config_7004 0 ''EUR/USD'' (Some 200) marginal_calls (Some (11 / 10)) ''5m'')
       = Some 70"
    by (simp add: analyze_def marginal_calls_confidence Signal_init_def m py_round_def
        round_half_even_def Let_def)
  with m marginal_calls_confidence show ?thesis by simp
qed

text \<open>
  C3, amended. For every symbol, price history, timeframe and configuration, a signal that
  \<open>analyze\<close> returns has a computed confidence of at least the configured minimum and
  stores that confidence rounded to one decimal place; the stored confidence is at least
  the minimum whenever the minimum has at most one decimal digit, as the default 70 has.
  When the indicators give no vote or the computed confidence is below the minimum the
  result is no signal.
\<close>

theorem analyze_confidence_floor:
  "(case analyze cfg now smb n results current_price timeframe of
      None \<Rightarrow> True
    | Some sg \<Rightarrow>
        (case overall_confidence cfg results of
           None \<Rightarrow> False
         | Some (d, c) \<Rightarrow>
             MIN_SIGNAL_CONFIDENCE cfg \<le> c \<and> sig_confidence sg = py_round c 1))
   \<and> (MIN_SIGNAL_CONFIDENCE cfg = of_int k / 10 \<longrightarrow>
        (case analyze cfg now smb n results current_price timeframe of
           None \<Rightarrow> True
         | Some sg \<Rightarrow> MIN_SIGNAL_CONFIDENCE cfg \<le> sig_confidence sg))
   \<and> (case overall_confidence cfg results of
         None \<Rightarrow> analyze cfg now smb n results current_price timeframe = None
       | Some (d, c) \<Rightarrow>
           if c < MIN_SIGNAL_CONFIDENCE cfg
           then analyze cfg now smb n results current_price timeframe = None
           else True)"
proof -
  have a: "MIN_SIGNAL_CONFIDENCE cfg \<le> sig_confidence sg"
    if "analyze cfg now smb n results current_price timeframe = Some sg"
      and t: "MIN_SIGNAL_CONFIDENCE cfg = of_int k / 10" for sg
  proof -
    from analyze_Some [OF that(1)] obtain c where
      c: "MIN_SIGNAL_CONFIDENCE cfg \<le> c" and r: "sig_confidence sg = py_round c 1"
      by blast
    from c have "of_int k / 10 ^ 1 \<le> c" by (simp add: t)
    then have "of_int k / 10 ^ 1 \<le> py_round c 1" by (rule py_round_ge)
    then show ?thesis by (simp add: t r)
  qed
  have b: "analyze cfg now smb n results current_price timeframe = None"
    if "overall_confidence cfg results = None"
    using that by (simp add: analyze_def split: option.splits)
  have c: "analyze cfg now smb n results current_price timeframe = None"
    if "overall_confidence cfg results = Some (d, c)" and "c < MIN_SIGNAL_CONFIDENCE cfg" for d c
    using that by (simp add: analyze_def split: option.splits)
  have d: "case overall_confidence cfg results of
             None \<Rightarrow> False
           | Some (d, c) \<Rightarrow> MIN_SIGNAL_CONFIDENCE cfg \<le> c \<and> sig_confidence sg = py_round c 1"
    if "analyze cfg now smb n results current_price timeframe = Some sg" for sg
    using analyze_Some [OF that] by auto
  show ?thesis
    using a b c d by (auto split: option.splits)
qed

lemma six_calls_confidence:
  "overall_confidence default_config six_calls = Some (''CALL'', 951625 / 10000)"
  by (simp add: overall_confidence_def six_calls_def default_config_def weights_get_def Let_def)

lemma six_calls_signal:
  "analyze default_config 0 ''EUR/USD'' (Some 200) six_calls (Some (11 / 10)) ''5m'' =
     Some \<lparr>sig_symbol = ''EUR/USD'', sig_direction = ''CALL'', sig_confidence = 952 / 10,
           sig_indicators = six_calls, sig_price = 11 / 10, sig_timeframe = ''5m'',
           sig_timestamp = 0\<rparr>"
proof -
  have m: "MIN_SIGNAL_CONFIDENCE default_config = 70"
    by (simp add: default_config_def)
  show ?thesis
    by (simp add: analyze_def six_calls_confidence Signal_init_def m py_round_def
        round_half_even_def Let_def)
qed

theorem analyze_confidence_floor_witness:
  "MIN_SIGNAL_CONFIDENCE default_config = of_int 700 / 10
   \<and> map_option sig_confidence
        (analyze default_config 0 ''EUR/USD'' (Some 200) six_calls (Some (11 / 10)) ''5m'')
       = Some (952 / 10)
   \<and> MIN_SIGNAL_CONFIDENCE default_config \<le> 952 / 10"
proof -
  have h: "MIN_SIGNAL_CONFIDENCE default_config = of_int 700 / 10"
    by (simp add: default_config_def)
  from analyze_confidence_floor [where cfg = default_config and k = 700 and now = 0
      and smb = "''EUR/USD''" and n = "Some 200"
      and results = six_calls and current_price = "Some (11 / 10)" and timeframe = "''5m''"] h
  have "MIN_SIGNAL_CONFIDENCE default_config \<le> 952 / 10"
    by (simp add: six_calls_signal)
  with h show ?thesis
    by (simp add: six_calls_signal)
qed

subsection \<open>EMA cross, sustained trend\<close>

lemma iloc_neg_last: "iloc_neg (xs @ [a, b]) 1 = Some b"
  by (simp add: iloc_neg_def nth_append)

lemma iloc_neg_prev: "iloc_neg (xs @ [a, b]) 2 = Some a"
  by (simp add: iloc_neg_def nth_append)

text \<open>
  C5, as stated, fails: with the fast EMA at 100.1 over a slow EMA at 100 on both of the
  last two bars there is no fresh cross and the gap is 0.1 percent; the method scores 50,
  not \<open>min(70, 40 + 0.1) = 40.1\<close>.
\<close>

theorem ema_sustained_trend_counterexample:
  "analyze_ema_cross [Some (1001 / 10), Some (1001 / 10)] [Some 100, Some 100] = (50, ''CALL'')
   \<and> min 70 (40 + \<bar>1001 / 10 - 100\<bar> / 100 * 100) = (401 / 10 :: real)"
  by (simp add: analyze_ema_cross_def iloc_neg_def nan_le_def Let_def)

text \<open>
  C5, amended. With no fresh crossover and the two EMAs different, the score is
  \<open>min(70, 40 + gap_pct * 100)\<close>, where \<open>gap_pct\<close> is
  \<open>|fast - slow| / slow * 100\<close> (and 0 when the slow EMA is 0), with direction CALL when
  the fast EMA is above the slow one and PUT when it is below.
\<close>

theorem ema_sustained_trend:
  assumes "\<not> (nan_le fast_prev slow_prev \<and> slow_now < fast_now)"
    and "\<not> (nan_le slow_prev fast_prev \<and> fast_now < slow_now)"
    and "fast_now \<noteq> slow_now"
  shows "analyze_ema_cross (fs @ [fast_prev, Some fast_now]) (ss @ [slow_prev, Some slow_now]) =
           (min 70 (40 + (if slow_now \<noteq> 0 then \<bar>fast_now - slow_now\<bar> / slow_now * 100 else 0) * 100),
            if slow_now < fast_now then ''CALL'' else ''PUT'')"
proof -
  have "analyze_ema_cross (fs @ [fast_prev, Some fast_now]) (ss @ [slow_prev, Some slow_now]) =
          (let gap_pct = (if slow_now \<noteq> 0 then \<bar>fast_now - slow_now\<bar> / slow_now * 100 else 0)
           in if slow_now < fast_now then (min 70 (40 + gap_pct * 100), ''CALL'')
              else if fast_now < slow_now then (min 70 (40 + gap_pct * 100), ''PUT'')
              else (0, ''NEUTRAL''))"
    unfolding analyze_ema_cross_def iloc_neg_last iloc_neg_prev
    using assms(1,2) by auto
  also have "\<dots> = (min 70 (40 + (if slow_now \<noteq> 0 then \<bar>fast_now - slow_now\<bar> / slow_now * 100 else 0) * 100),
            if slow_now < fast_now then ''CALL'' else ''PUT'')"
    using assms(3) by (simp add: Let_def)
  finally show ?thesis .
qed

theorem ema_sustained_trend_witness:
  "\<not> (nan_le (Some (1001 / 10)) (Some 100) \<and> (100::real) < 1001 / 10)
   \<and> \<not> (nan_le (Some 100) (Some (1001 / 10)) \<and> (1001 / 10 :: real) < 100)
   \<and> (1001 / 10 :: real) \<noteq> 100
   \<and> analyze_ema_cross ([] @ [Some (1001 / 10), Some (1001 / 10)]) ([] @ [Some 100, Some 100])
        = (50, ''CALL'')"
proof -
  have h1: "\<not> (nan_le (Some (1001 / 10)) (Some 100) \<and> (100::real) < 1001 / 10)"
    by (simp add: nan_le_def)
  have h2: "\<not> (nan_le (Some 100) (Some (1001 / 10)) \<and> (1001 / 10 :: real) < 100)"
    by simp
  have h3: "(1001 / 10 :: real) \<noteq> 100" by simp
  from ema_sustained_trend [OF h1 h2 h3, of "[]" "[]"] h1 h2 h3
  show ?thesis by simp
qed

section \<open>Properties of the trading engine\<close>

subsection \<open>Resolving a trade\<close>

text \<open>
  C2. A trade resolved with a known exit price: a CALL wins exactly when the exit price is
  above the entry price, a PUT exactly when it is below; equal prices are a loss; the
  result is WIN or LOSS, a win has pnl stake times payout rate and a loss has pnl minus the
  stake; the trade is marked resolved.
\<close>

theorem resolve_trade_outcome:
  assumes "exit_price t = Some xp"
  shows "(direction t = ''CALL'' \<longrightarrow>
            (result (fst (resolve_trade cfg now t rm)) = Some ''WIN'') = (entry_price t < xp))
       \<and> (direction t = ''PUT'' \<longrightarrow>
            (result (fst (resolve_trade cfg now t rm)) = Some ''WIN'') = (xp < entry_price t))
       \<and> (xp = entry_price t \<longrightarrow> result (fst (resolve_trade cfg now t rm)) = Some ''LOSS'')
       \<and> (result (fst (resolve_trade cfg now t rm)) = Some ''WIN''
            \<or> result (fst (resolve_trade cfg now t rm)) = Some ''LOSS'')
       \<and> (result (fst (resolve_trade cfg now t rm)) = Some ''WIN'' \<longrightarrow>
            pnl (fst (resolve_trade cfg now t rm)) = stake t * PAYOUT_RATE cfg)
       \<and> (result (fst (resolve_trade cfg now t rm)) = Some ''LOSS'' \<longrightarrow>
            pnl (fst (resolve_trade cfg now t rm)) = - stake t)
       \<and> resolved (fst (resolve_trade cfg now t rm))"
  using assms by (simp add: resolve_trade_def Let_def)

theorem resolve_trade_outcome_witness:
  "exit_price scenario_D = Some (11 / 10)
   \<and> result (fst (resolve_trade default_config 300 scenario_D
                    (RiskManager_init default_config None 0))) = Some ''LOSS''
   \<and> pnl (fst (resolve_trade default_config 300 scenario_D
                    (RiskManager_init default_config None 0))) = - (4 / 10)"
proof -
  have h: "exit_price scenario_D = Some (11 / 10)"
    by (simp add: scenario_D_def Trade_new_def)
  have e: "entry_price scenario_D = 11 / 10" and s: "stake scenario_D = 4 / 10"
    by (simp_all add: scenario_D_def Trade_new_def)
  from resolve_trade_outcome [OF h, of default_config 300 "RiskManager_init default_config None 0"]
  show ?thesis using h e s by simp
qed

subsection \<open>Statistics\<close>

lemma get_stats_total: "\<exists>st. get_stats e = Inr st"
  by (simp add: get_stats_def Let_def py_truediv_def)

text \<open>
  C10. With no completed trade \<open>get_stats\<close> returns its dictionary, no exception, and
  the win rate, the best trade and the worst trade in it are 0.
\<close>

theorem get_stats_empty_history:
  assumes "completed_trades e = []"
  shows "get_stats e =
           Inr \<lparr>st_total_trades = 0, st_wins = 0, st_losses = 0, st_win_rate = 0,
                st_total_pnl = 0, st_active_count = length (active_trades e),
                st_best_trade = 0, st_worst_trade = 0\<rparr>"
  using assms by (simp add: get_stats_def max_default_def min_default_def)

theorem get_stats_empty_history_witness:
  "completed_trades (TradingEngine_init (RiskManager_init default_config None 0)) = []
   \<and> get_stats (TradingEngine_init (RiskManager_init default_config None 0)) =
           Inr \<lparr>st_total_trades = 0, st_wins = 0, st_losses = 0, st_win_rate = 0,
                st_total_pnl = 0, st_active_count = 0,
                st_best_trade = 0, st_worst_trade = 0\<rparr>"
proof -
  have h: "completed_trades (TradingEngine_init (RiskManager_init default_config None 0)) = []"
    by (simp add: TradingEngine_init_def)
  from get_stats_empty_history [OF h] h show ?thesis
    by (simp add: TradingEngine_init_def)
qed

subsection \<open>A concrete engine state\<close>

lemma py_round_04: "py_round (2 / 5) 2 = 2 / 5"
  by (simp add: py_round_def round_half_even_def Let_def)

lemma fresh_manager:
  "RiskManager_init default_config None 0 =
     \<lparr>initial_balance = 20, balance = 20,
      daily_stats = \<lparr>date = Some 0, starting_balance = 20, trades_taken = 0, wins = 0,
                     losses = 0, total_pnl = 0, consecutive_losses = 0, cooldown_until = None\<rparr>,
      open_trades_count = 0, trade_history = []\<rparr>"
  by (simp add: RiskManager_init_def default_config_def reset_daily_stats_def Let_def
      DailyStats_new_def date_of_def)

lemma fresh_can_trade:
  "can_trade default_config 0 (RiskManager_init default_config None 0) =
     (True, ALL_CHECKS_PASSED, RiskManager_init default_config None 0)"
  unfolding fresh_manager
  by (simp add: can_trade_def can_trade_tail_def reset_daily_stats_def Let_def date_of_def
      daily_loss_pct_def calculate_position_size_def default_config_def py_round_04)

lemma one_open_trade_eq:
  "one_open_trade =
     \<lparr>risk_manager = (RiskManager_init default_config None 0)\<lparr>open_trades_count := 1\<rparr>,
      active_trades = [Trade_new default_config 0 1 ''EUR/USD'' ''CALL'' (11 / 10) (4 / 10) 92],
      completed_trades = [], trade_counter = 1,
      signal_log = [\<lparr>log_timestamp = 0, log_symbol = ''EUR/USD'', log_direction = ''CALL'',
                      log_confidence = 92, log_price = 11 / 10, log_action = EXECUTED (4 / 10)\<rparr>]\<rparr>"
proof -
  have ps: "calculate_position_size default_config (RiskManager_init default_config None 0) = 4 / 10"
    unfolding fresh_manager
    by (simp add: calculate_position_size_def default_config_def py_round_04)
  have c0: "open_trades_count (RiskManager_init default_config None 0) = 0"
    by (simp add: fresh_manager)
  show ?thesis
    by (simp add: one_open_trade_def process_signal_def fresh_can_trade ps c0 Let_def
        TradingEngine_init_def open_trade_def signal0_def)
qed

subsection \<open>Deferring a trade without a price\<close>

lemma resolve_loop_append:
  "resolve_loop cfg now pr (xs @ ys) acc = resolve_loop cfg now pr ys (resolve_loop cfg now pr xs acc)"
proof (induction xs arbitrary: acc)
  case Nil
  show ?case by simp
next
  case (Cons t xs)
  obtain rm st dn where acc: "acc = (rm, st, dn)"
    by (cases acc) auto
  show ?case
    by (simp add: acc Cons.IH split: option.split prod.split)
qed

lemma resolve_loop_still:
  "resolve_loop cfg now pr ts (rm, st, dn) =
     (case resolve_loop cfg now pr ts (rm, [], dn) of (rm', st', dn') \<Rightarrow> (rm', st @ st', dn'))"
proof (induction ts arbitrary: rm st dn)
  case Nil
  show ?case by simp
next
  case (Cons t ts)
  show ?case
  proof (cases "is_expired now t")
    case False
    have "resolve_loop cfg now pr (t # ts) (rm, st, dn) = resolve_loop cfg now pr ts (rm, st @ [t], dn)"
      using False by simp
    also have "\<dots> = (case resolve_loop cfg now pr ts (rm, [], dn) of
                        (rm', st', dn') \<Rightarrow> (rm', (st @ [t]) @ st', dn'))"
      by (rule Cons.IH)
    finally have l: "resolve_loop cfg now pr (t # ts) (rm, st, dn) =
        (case resolve_loop cfg now pr ts (rm, [], dn) of (rm', st', dn') \<Rightarrow> (rm', st @ t # st', dn'))"
      by simp
    have "resolve_loop cfg now pr (t # ts) (rm, [], dn) = resolve_loop cfg now pr ts (rm, [] @ [t], dn)"
      using False by simp
    also have "\<dots> = (case resolve_loop cfg now pr ts (rm, [], dn) of
                        (rm', st', dn') \<Rightarrow> (rm', ([] @ [t]) @ st', dn'))"
      by (rule Cons.IH)
    finally have r: "resolve_loop cfg now pr (t # ts) (rm, [], dn) =
        (case resolve_loop cfg now pr ts (rm, [], dn) of (rm', st', dn') \<Rightarrow> (rm', t # st', dn'))"
      by simp
    show ?thesis
      by (simp only: l r) (simp split: prod.split)
  next
    case True
    show ?thesis
    proof (cases "pr (symbol t)")
      case None
      define t' where "t' = t\<lparr>expiry_time := expiry_time t + minutes 1\<rparr>"
      have "resolve_loop cfg now pr (t # ts) (rm, st, dn) = resolve_loop cfg now pr ts (rm, st @ [t'], dn)"
        using True None by (simp add: t'_def)
      also have "\<dots> = (case resolve_loop cfg now pr ts (rm, [], dn) of
                          (rm', st', dn') \<Rightarrow> (rm', (st @ [t']) @ st', dn'))"
        by (rule Cons.IH)
      finally have l: "resolve_loop cfg now pr (t # ts) (rm, st, dn) =
          (case resolve_loop cfg now pr ts (rm, [], dn) of (rm', st', dn') \<Rightarrow> (rm', st @ t' # st', dn'))"
        by simp
      have "resolve_loop cfg now pr (t # ts) (rm, [], dn) = resolve_loop cfg now pr ts (rm, [] @ [t'], dn)"
        using True None by (simp add: t'_def)
      also have "\<dots> = (case resolve_loop cfg now pr ts (rm, [], dn) of
                          (rm', st', dn') \<Rightarrow> (rm', ([] @ [t']) @ st', dn'))"
        by (rule Cons.IH)
      finally have r: "resolve_loop cfg now pr (t # ts) (rm, [], dn) =
          (case resolve_loop cfg now pr ts (rm, [], dn) of (rm', st', dn') \<Rightarrow> (rm', t' # st', dn'))"
        by simp
      show ?thesis
        by (simp only: l r) (simp split: prod.split)
    next
      case (Some xp)
      obtain u rm1 where rt: "resolve_trade cfg now (t\<lparr>exit_price := Some xp\<rparr>) rm = (u, rm1)"
        by (cases "resolve_trade cfg now (t\<lparr>exit_price := Some xp\<rparr>) rm") auto
      have l: "resolve_loop cfg now pr (t # ts) (rm, st, dn) =
                 resolve_loop cfg now pr ts (close_trade rm1, st, dn @ [u])"
        using True Some rt by simp
      have r: "resolve_loop cfg now pr (t # ts) (rm, [], dn) =
                 resolve_loop cfg now pr ts (close_trade rm1, [], dn @ [u])"
        using True Some rt by simp
      show ?thesis
        by (simp only: l r) (rule Cons.IH)
    qed
  qed
qed

text \<open>
  C7. Let the active trades be \<open>xs\<close>, then an expired trade \<open>t\<close> whose symbol has no
  current price, then \<open>ys\<close>. After \<open>check_and_resolve_trades\<close> the engine is what it
  would be had \<open>t\<close> not been in the list (the same risk manager, completed trades,
  counter and log), except that the active list holds \<open>t\<close>, at its place among the trades
  that stay active, with \<open>expiry_time\<close> one minute later and every other field unchanged.
\<close>

theorem missing_price_defers_expiry:
  assumes "active_trades e = xs @ t # ys"
    and "is_expired now t"
    and "current_prices (symbol t) = None"
  shows "\<exists>B. check_and_resolve_trades cfg now current_prices e =
               (check_and_resolve_trades cfg now current_prices (e\<lparr>active_trades := xs @ ys\<rparr>))
                 \<lparr>active_trades :=
                    active_trades (check_and_resolve_trades cfg now current_prices
                                     (e\<lparr>active_trades := xs\<rparr>))
                    @ t\<lparr>expiry_time := expiry_time t + minutes 1\<rparr> # B\<rparr>
             \<and> active_trades (check_and_resolve_trades cfg now current_prices
                                 (e\<lparr>active_trades := xs @ ys\<rparr>)) =
                 active_trades (check_and_resolve_trades cfg now current_prices
                                  (e\<lparr>active_trades := xs\<rparr>)) @ B"
proof -
  define t' where "t' = t\<lparr>expiry_time := expiry_time t + minutes 1\<rparr>"
  obtain rm1 A d1 where
    px: "resolve_loop cfg now current_prices xs (risk_manager e, [], completed_trades e) = (rm1, A, d1)"
    by (cases "resolve_loop cfg now current_prices xs (risk_manager e, [], completed_trades e)") auto
  obtain rm2 B d2 where
    py: "resolve_loop cfg now current_prices ys (rm1, [], d1) = (rm2, B, d2)"
    by (cases "resolve_loop cfg now current_prices ys (rm1, [], d1)") auto
  have step: "resolve_loop cfg now current_prices [t] (rm1, A, d1) = (rm1, A @ [t'], d1)"
    using assms(2,3) by (simp add: t'_def)
  have with_t: "resolve_loop cfg now current_prices (xs @ t # ys) (risk_manager e, [], completed_trades e)
                  = (rm2, A @ t' # B, d2)"
  proof -
    have "resolve_loop cfg now current_prices (xs @ [t] @ ys) (risk_manager e, [], completed_trades e)
            = resolve_loop cfg now current_prices ys (rm1, A @ [t'], d1)"
      by (simp only: resolve_loop_append px step)
    also have "\<dots> = (rm2, (A @ [t']) @ B, d2)"
      by (subst resolve_loop_still) (simp add: py)
    finally show ?thesis by simp
  qed
  have without_t: "resolve_loop cfg now current_prices (xs @ ys) (risk_manager e, [], completed_trades e)
                  = (rm2, A @ B, d2)"
  proof -
    have "resolve_loop cfg now current_prices (xs @ ys) (risk_manager e, [], completed_trades e)
            = resolve_loop cfg now current_prices ys (rm1, A, d1)"
      by (simp only: resolve_loop_append px)
    also have "\<dots> = (rm2, A @ B, d2)"
      by (subst resolve_loop_still) (simp add: py)
    finally show ?thesis .
  qed
  have "check_and_resolve_trades cfg now current_prices e =
               (check_and_resolve_trades cfg now current_prices (e\<lparr>active_trades := xs @ ys\<rparr>))
                 \<lparr>active_trades :=
                    active_trades (check_and_resolve_trades cfg now current_prices
                                     (e\<lparr>active_trades := xs\<rparr>))
                    @ t' # B\<rparr>
             \<and> active_trades (check_and_resolve_trades cfg now current_prices
                                 (e\<lparr>active_trades := xs @ ys\<rparr>)) =
                 active_trades (check_and_resolve_trades cfg now current_prices
                                  (e\<lparr>active_trades := xs\<rparr>)) @ B"
    by (simp add: check_and_resolve_trades_def assms(1) with_t without_t px)
  then show ?thesis
    unfolding t'_def by blast
qed

theorem missing_price_defers_expiry_witness:
  "active_trades one_open_trade =
      [] @ Trade_new default_config 0 1 ''EUR/USD'' ''CALL'' (11 / 10) (4 / 10) 92 # []
   \<and> is_expired 300 (Trade_new default_config 0 1 ''EUR/USD'' ''CALL'' (11 / 10) (4 / 10) 92)
   \<and> Map.empty (symbol (Trade_new default_config 0 1 ''EUR/USD'' ''CALL'' (11 / 10) (4 / 10) 92))
       = (None :: real option)
   \<and> check_and_resolve_trades default_config 300 Map.empty one_open_trade =
       one_open_trade\<lparr>active_trades :=
         [(Trade_new default_config 0 1 ''EUR/USD'' ''CALL'' (11 / 10) (4 / 10) 92)
            \<lparr>expiry_time := 360\<rparr>]\<rparr>"
proof -
  define T where "T = Trade_new default_config 0 1 ''EUR/USD'' ''CALL'' (11 / 10) (4 / 10) 92"
  have h1: "active_trades one_open_trade = [] @ T # []"
    by (simp add: one_open_trade_eq T_def)
  have h2: "is_expired 300 T"
    by (simp add: T_def is_expired_def Trade_new_def minutes_def default_config_def)
  have h3: "Map.empty (symbol T) = (None :: real option)"
    by simp
  have x: "expiry_time T + minutes 1 = 360"
    by (simp add: T_def Trade_new_def minutes_def default_config_def)
  from missing_price_defers_expiry [OF h1 h2 h3, where cfg = default_config] obtain B where
    b: "check_and_resolve_trades default_config 300 Map.empty one_open_trade =
          (check_and_resolve_trades default_config 300 Map.empty
             (one_open_trade\<lparr>active_trades := [] @ []\<rparr>))
          \<lparr>active_trades :=
             active_trades (check_and_resolve_trades default_config 300 Map.empty
                              (one_open_trade\<lparr>active_trades := []\<rparr>))
             @ T\<lparr>expiry_time := expiry_time T + minutes 1\<rparr> # B\<rparr>"
    and a: "active_trades (check_and_resolve_trades default_config 300 Map.empty
                            (one_open_trade\<lparr>active_trades := [] @ []\<rparr>)) =
            active_trades (check_and_resolve_trades default_config 300 Map.empty
                            (one_open_trade\<lparr>active_trades := []\<rparr>)) @ B"
    by blast
  have e0: "check_and_resolve_trades default_config 300 Map.empty
              (one_open_trade\<lparr>active_trades := []\<rparr>) = one_open_trade\<lparr>active_trades := []\<rparr>"
    by (simp add: check_and_resolve_trades_def)
  from a have "B = []" by (simp add: e0)
  with b have "check_and_resolve_trades default_config 300 Map.empty one_open_trade =
       one_open_trade\<lparr>active_trades := [T\<lparr>expiry_time := 360\<rparr>]\<rparr>"
    by (simp add: e0 x)
  with h1 h2 h3 show ?thesis
    unfolding T_def by simp
qed

subsection \<open>Open trades counter\<close>

lemma can_trade_tail_state: "snd (snd (can_trade_tail cfg s)) = s"
  by (simp add: can_trade_tail_def Let_def)

lemma can_trade_count:
  "open_trades_count (snd (snd (can_trade cfg now s))) = open_trades_count s"
  by (simp add: can_trade_def Let_def can_trade_tail_state reset_count split: option.split)

lemma record_count:
  "open_trades_count (record_trade_result cfg now won amount info s) = open_trades_count s"
  by (simp add: record_trade_result_def Let_def reset_count)

lemma resolve_trade_count:
  "open_trades_count (snd (resolve_trade cfg now t rm)) = open_trades_count rm"
  by (simp add: resolve_trade_def Let_def record_count split: option.split)

lemma resolve_trade_resolved:
  "exit_price t = Some xp \<Longrightarrow> resolved (fst (resolve_trade cfg now t rm))"
  by (simp add: resolve_trade_def Let_def)

lemma resolve_trade_id:
  "trade_id (fst (resolve_trade cfg now t rm)) = trade_id t"
  by (simp add: resolve_trade_def Let_def split: option.split)

lemma resolve_loop_inv:
  assumes "list_all (\<lambda>t. \<not> resolved t) ts"
    and "list_all (\<lambda>t. \<not> resolved t) st"
    and "list_all resolved dn"
    and "open_trades_count rm = int (length st) + int (length ts)"
  shows "case resolve_loop cfg now pr ts (rm, st, dn) of
           (rm', st', dn') \<Rightarrow>
             open_trades_count rm' = int (length st')
             \<and> list_all (\<lambda>t. \<not> resolved t) st' \<and> list_all resolved dn'"
  using assms
proof (induction ts arbitrary: rm st dn)
  case Nil
  then show ?case by simp
next
  case (Cons t ts)
  from Cons.prems(1) have ut: "\<not> resolved t" and uts: "list_all (\<lambda>t. \<not> resolved t) ts"
    by simp_all
  show ?case
  proof (cases "is_expired now t \<and> pr (symbol t) \<noteq> None")
    case False
    define t' where "t' = (if is_expired now t then t\<lparr>expiry_time := expiry_time t + minutes 1\<rparr> else t)"
    have l: "resolve_loop cfg now pr (t # ts) (rm, st, dn) = resolve_loop cfg now pr ts (rm, st @ [t'], dn)"
      using False by (auto simp: t'_def)
    have a: "list_all (\<lambda>t. \<not> resolved t) (st @ [t'])"
      using Cons.prems(2) ut by (simp add: t'_def)
    have c: "open_trades_count rm = int (length (st @ [t'])) + int (length ts)"
      using Cons.prems(4) by simp
    show ?thesis
      unfolding l by (rule Cons.IH [OF uts a Cons.prems(3) c])
  next
    case True
    then obtain xp where xp: "pr (symbol t) = Some xp" and ex: "is_expired now t"
      by auto
    obtain u rm1 where rt: "resolve_trade cfg now (t\<lparr>exit_price := Some xp\<rparr>) rm = (u, rm1)"
      by (cases "resolve_trade cfg now (t\<lparr>exit_price := Some xp\<rparr>) rm") auto
    have l: "resolve_loop cfg now pr (t # ts) (rm, st, dn) =
               resolve_loop cfg now pr ts (close_trade rm1, st, dn @ [u])"
      using ex xp rt by simp
    have "resolved (fst (resolve_trade cfg now (t\<lparr>exit_price := Some xp\<rparr>) rm))"
      by (rule resolve_trade_resolved) simp
    then have ru: "resolved u" by (simp add: rt)
    have "open_trades_count (snd (resolve_trade cfg now (t\<lparr>exit_price := Some xp\<rparr>) rm))
            = open_trades_count rm"
      by (rule resolve_trade_count)
    then have "open_trades_count rm1 = int (length st) + int (length ts) + 1"
      using Cons.prems(4) by (simp add: rt)
    then have c: "open_trades_count (close_trade rm1) = int (length st) + int (length ts)"
      by (simp add: close_trade_def)
    have d: "list_all resolved (dn @ [u])"
      using Cons.prems(3) ru by simp
    show ?thesis
      unfolding l by (rule Cons.IH [OF uts Cons.prems(2) d c])
  qed
qed

lemma init_ledger_inv: "ledger_inv (TradingEngine_init (RiskManager_init cfg b now))"
  by (simp add: ledger_inv_def TradingEngine_init_def RiskManager_init_def Let_def reset_count)

lemma process_signal_effect:
  "(case process_signal cfg now sg e of
      (None, e') \<Rightarrow>
        active_trades e' = active_trades e
        \<and> open_trades_count (risk_manager e') = open_trades_count (risk_manager e)
    | (Some t, e') \<Rightarrow>
        active_trades e' = active_trades e @ [t] \<and> \<not> resolved t
        \<and> open_trades_count (risk_manager e') = open_trades_count (risk_manager e) + 1)
   \<and> completed_trades (snd (process_signal cfg now sg e)) = completed_trades e"
proof -
  obtain ok why rm where ct: "can_trade cfg now (risk_manager e) = (ok, why, rm)"
    by (cases "can_trade cfg now (risk_manager e)") auto
  have "open_trades_count (snd (snd (can_trade cfg now (risk_manager e))))
          = open_trades_count (risk_manager e)"
    by (rule can_trade_count)
  then have c: "open_trades_count rm = open_trades_count (risk_manager e)"
    by (simp add: ct)
  show ?thesis
    by (simp add: process_signal_def ct Let_def c open_trade_def Trade_new_def)
qed

lemma process_signal_inv:
  assumes "ledger_inv e"
  shows "ledger_inv (snd (process_signal cfg now sg e))"
proof -
  obtain r e' where p: "process_signal cfg now sg e = (r, e')"
    by (cases "process_signal cfg now sg e") auto
  from process_signal_effect [where cfg = cfg and now = now and sg = sg and e = e] assms show ?thesis
    by (cases r) (auto simp: p ledger_inv_def)
qed

lemma check_and_resolve_inv:
  assumes "ledger_inv e"
  shows "ledger_inv (check_and_resolve_trades cfg now pr e)"
proof -
  obtain rm' st' dn' where
    l: "resolve_loop cfg now pr (active_trades e) (risk_manager e, [], completed_trades e)
          = (rm', st', dn')"
    by (cases "resolve_loop cfg now pr (active_trades e) (risk_manager e, [], completed_trades e)") auto
  from assms have a: "list_all (\<lambda>t. \<not> resolved t) (active_trades e)"
    and d: "list_all resolved (completed_trades e)"
    and c: "open_trades_count (risk_manager e) = int (length ([] :: Trade list)) + int (length (active_trades e))"
    by (simp_all add: ledger_inv_def)
  have n: "list_all (\<lambda>t. \<not> resolved t) ([] :: Trade list)" by simp
  from resolve_loop_inv [OF a n d c, of cfg now pr] show ?thesis
    by (simp add: l check_and_resolve_trades_def ledger_inv_def)
qed

lemma simulate_demo_losses_inv:
  "ledger_inv e \<Longrightarrow> ledger_inv (simulate_demo_losses cfg now k e)"
proof (induction k arbitrary: e)
  case 0
  then show ?case by simp
next
  case (Suc k)
  obtain ok why rm where ct: "can_trade cfg now (risk_manager e) = (ok, why, rm)"
    by (cases "can_trade cfg now (risk_manager e)") auto
  have "open_trades_count (snd (snd (can_trade cfg now (risk_manager e))))
          = open_trades_count (risk_manager e)"
    by (rule can_trade_count)
  then have c: "open_trades_count rm = open_trades_count (risk_manager e)"
    by (simp add: ct)
  show ?case
  proof (cases ok)
    case False
    then show ?thesis
      using Suc.prems by (simp add: ct Let_def ledger_inv_def c)
  next
    case True
    define stk where "stk = calculate_position_size cfg rm"
    define e1 where "e1 = e\<lparr>risk_manager :=
                         record_trade_result cfg now False stk
                           (Some \<lparr>ti_symbol = ''DEMO'', ti_direction = ''CALL'', ti_entry_price = 1,
                                  ti_exit_price = 999 / 1000, ti_confidence = 75\<rparr>) rm,
                       completed_trades := completed_trades e @ [\<lparr>trade_id = trade_counter e + 1, symbol = ''DEMO'', direction = ''CALL'', entry_price = 1,
                       stake = stk, confidence = 75,
                       entry_time = now - minutes (TRADE_EXPIRY_MINUTES cfg + 1),
                       expiry_time = now - minutes (TRADE_EXPIRY_MINUTES cfg + 1)
                                     + minutes (TRADE_EXPIRY_MINUTES cfg),
                       exit_price = Some (999 / 1000), result = Some ''LOSS'', pnl = - stk,
                       resolved = True\<rparr>],
                       trade_counter := trade_counter e + 1\<rparr>"
    have s: "simulate_demo_losses cfg now (Suc k) e = simulate_demo_losses cfg now k e1"
      using True by (simp add: ct Let_def e1_def stk_def)
    have "ledger_inv e1"
      using Suc.prems by (simp add: e1_def ledger_inv_def record_count c)
    then show ?thesis
      unfolding s by (rule Suc.IH)
  qed
qed

lemma status_inv:
  "ledger_inv e \<Longrightarrow>
   ledger_inv (e\<lparr>risk_manager := snd (snd (can_trade cfg now (risk_manager e)))\<rparr>)"
  by (simp add: ledger_inv_def can_trade_count)

lemma reachable_ledger_inv: "reachable cfg e \<Longrightarrow> ledger_inv e"
proof (induction rule: reachable.induct)
  case (r_init b now)
  show ?case by (rule init_ledger_inv)
next
  case (r_signal e now sg)
  then show ?case by (simp add: process_signal_inv)
next
  case (r_resolve e now prices)
  then show ?case by (simp add: check_and_resolve_inv)
next
  case (r_demo e now k)
  then show ?case by (simp add: simulate_demo_losses_inv)
next
  case (r_status e now)
  then show ?case by (simp add: status_inv)
qed

lemma ledger_inv_unresolved:
  assumes "ledger_inv e"
  shows "unresolved_held e = active_trades e"
proof -
  from assms have a: "list_all (\<lambda>t. \<not> resolved t) (active_trades e)"
    and d: "list_all resolved (completed_trades e)"
    by (simp_all add: ledger_inv_def)
  from a have "filter (\<lambda>t. \<not> resolved t) (active_trades e) = active_trades e"
    by (simp add: list_all_iff)
  moreover from d have "filter (\<lambda>t. \<not> resolved t) (completed_trades e) = []"
    by (simp add: list_all_iff)
  ultimately show ?thesis
    by (simp add: unresolved_held_def)
qed

lemma resolve_loop_ids:
  "case resolve_loop cfg now pr ts (rm, st, dn) of
     (rm', st', dn') \<Rightarrow>
       map trade_id st' = map trade_id st @ map trade_id (filter (\<lambda>t. \<not> resolves now pr t) ts)
       \<and> map trade_id dn' = map trade_id dn @ map trade_id (filter (resolves now pr) ts)"
proof (induction ts arbitrary: rm st dn)
  case Nil
  show ?case by simp
next
  case (Cons t ts)
  show ?case
  proof (cases "resolves now pr t")
    case False
    define t' where "t' = (if is_expired now t then t\<lparr>expiry_time := expiry_time t + minutes 1\<rparr> else t)"
    have l: "resolve_loop cfg now pr (t # ts) (rm, st, dn) = resolve_loop cfg now pr ts (rm, st @ [t'], dn)"
      using False by (auto simp: t'_def resolves_def)
    have i: "trade_id t' = trade_id t" by (simp add: t'_def)
    from Cons.IH [where rm = rm and st = "st @ [t']" and dn = dn] show ?thesis
      unfolding l using False by (simp add: i split: prod.splits)
  next
    case True
    then obtain xp where xp: "pr (symbol t) = Some xp" and ex: "is_expired now t"
      by (auto simp: resolves_def)
    obtain u rm1 where rt: "resolve_trade cfg now (t\<lparr>exit_price := Some xp\<rparr>) rm = (u, rm1)"
      by (cases "resolve_trade cfg now (t\<lparr>exit_price := Some xp\<rparr>) rm") auto
    have l: "resolve_loop cfg now pr (t # ts) (rm, st, dn) =
               resolve_loop cfg now pr ts (close_trade rm1, st, dn @ [u])"
      using ex xp rt by simp
    have "trade_id (fst (resolve_trade cfg now (t\<lparr>exit_price := Some xp\<rparr>) rm))
            = trade_id (t\<lparr>exit_price := Some xp\<rparr>)"
      by (rule resolve_trade_id)
    then have i: "trade_id u = trade_id t" by (simp add: rt)
    from Cons.IH [where rm = "close_trade rm1" and st = st and dn = "dn @ [u]"] show ?thesis
      unfolding l using True by (simp add: i split: prod.splits)
  qed
qed

lemma resolve_loop_count:
  assumes "int (length (filter (resolves now pr) ts)) \<le> open_trades_count rm"
  shows "open_trades_count (fst (resolve_loop cfg now pr ts (rm, st, dn))) =
           open_trades_count rm - int (length (filter (resolves now pr) ts))"
  using assms
proof (induction ts arbitrary: rm st dn)
  case Nil
  show ?case by simp
next
  case (Cons t ts)
  show ?case
  proof (cases "resolves now pr t")
    case False
    define t' where "t' = (if is_expired now t then t\<lparr>expiry_time := expiry_time t + minutes 1\<rparr> else t)"
    have l: "resolve_loop cfg now pr (t # ts) (rm, st, dn) = resolve_loop cfg now pr ts (rm, st @ [t'], dn)"
      using False by (auto simp: t'_def resolves_def)
    from Cons.prems False have "int (length (filter (resolves now pr) ts)) \<le> open_trades_count rm"
      by simp
    from Cons.IH [OF this, where st = "st @ [t']" and dn = dn] show ?thesis
      unfolding l using False by simp
  next
    case True
    then obtain xp where xp: "pr (symbol t) = Some xp" and ex: "is_expired now t"
      by (auto simp: resolves_def)
    obtain u rm1 where rt: "resolve_trade cfg now (t\<lparr>exit_price := Some xp\<rparr>) rm = (u, rm1)"
      by (cases "resolve_trade cfg now (t\<lparr>exit_price := Some xp\<rparr>) rm") auto
    have l: "resolve_loop cfg now pr (t # ts) (rm, st, dn) =
               resolve_loop cfg now pr ts (close_trade rm1, st, dn @ [u])"
      using ex xp rt by simp
    have "open_trades_count (snd (resolve_trade cfg now (t\<lparr>exit_price := Some xp\<rparr>) rm))
            = open_trades_count rm"
      by (rule resolve_trade_count)
    then have c1: "open_trades_count rm1 = open_trades_count rm"
      by (simp add: rt)
    from Cons.prems True have pos: "int (length (filter (resolves now pr) ts)) + 1 \<le> open_trades_count rm"
      by simp
    then have c: "open_trades_count (close_trade rm1) = open_trades_count rm - 1"
      by (simp add: close_trade_def c1)
    from pos c have "int (length (filter (resolves now pr) ts)) \<le> open_trades_count (close_trade rm1)"
      by simp
    from Cons.IH [OF this, where st = st and dn = "dn @ [u]"] show ?thesis
      unfolding l using True c by simp
  qed
qed

text \<open>
  C6. In every state the engine can reach, \<open>open_trades_count\<close> is the number of trades
  the engine holds with \<open>resolved = false\<close>, and these are exactly the active trades.
  From such a state, \<open>process_signal\<close> either is blocked and changes neither the active
  list nor the counter, or appends exactly one unresolved trade and increments the counter
  by one; \<open>check_and_resolve_trades\<close> keeps active exactly the trades it does not resolve,
  moves the resolved ones to the completed list, and decrements the counter once for each;
  afterwards every active trade is unresolved and every completed trade resolved.
\<close>

theorem open_trades_count_matches_unresolved:
  assumes "reachable cfg e"
  shows "open_trades_count (risk_manager e) = int (length (unresolved_held e))
       \<and> unresolved_held e = active_trades e
       \<and> (case process_signal cfg now1 sg e of
            (None, e') \<Rightarrow>
              active_trades e' = active_trades e
              \<and> open_trades_count (risk_manager e') = open_trades_count (risk_manager e)
          | (Some t, e') \<Rightarrow>
              active_trades e' = active_trades e @ [t] \<and> \<not> resolved t
              \<and> open_trades_count (risk_manager e') = open_trades_count (risk_manager e) + 1)
       \<and> map trade_id (active_trades (check_and_resolve_trades cfg now2 pr e))
           = map trade_id (filter (\<lambda>t. \<not> resolves now2 pr t) (active_trades e))
       \<and> map trade_id (completed_trades (check_and_resolve_trades cfg now2 pr e))
           = map trade_id (completed_trades e) @ map trade_id (filter (resolves now2 pr) (active_trades e))
       \<and> open_trades_count (risk_manager (check_and_resolve_trades cfg now2 pr e))
           = open_trades_count (risk_manager e) - int (length (filter (resolves now2 pr) (active_trades e)))
       \<and> list_all (\<lambda>t. \<not> resolved t) (active_trades (check_and_resolve_trades cfg now2 pr e))
       \<and> list_all resolved (completed_trades (check_and_resolve_trades cfg now2 pr e))"
proof -
  from assms have inv: "ledger_inv e" by (rule reachable_ledger_inv)
  from inv have "ledger_inv (check_and_resolve_trades cfg now2 pr e)"
    by (rule check_and_resolve_inv)
  then have after: "list_all (\<lambda>t. \<not> resolved t) (active_trades (check_and_resolve_trades cfg now2 pr e))"
    "list_all resolved (completed_trades (check_and_resolve_trades cfg now2 pr e))"
    by (simp_all add: ledger_inv_def)
  from inv have u: "unresolved_held e = active_trades e" by (rule ledger_inv_unresolved)
  from inv have c: "open_trades_count (risk_manager e) = int (length (active_trades e))"
    by (simp add: ledger_inv_def)
  have p: "case process_signal cfg now1 sg e of
            (None, e') \<Rightarrow>
              active_trades e' = active_trades e
              \<and> open_trades_count (risk_manager e') = open_trades_count (risk_manager e)
          | (Some t, e') \<Rightarrow>
              active_trades e' = active_trades e @ [t] \<and> \<not> resolved t
              \<and> open_trades_count (risk_manager e') = open_trades_count (risk_manager e) + 1"
    using process_signal_effect [where cfg = cfg and now = now1 and sg = sg and e = e] by simp
  obtain rm' st' dn' where
    l: "resolve_loop cfg now2 pr (active_trades e) (risk_manager e, [], completed_trades e)
          = (rm', st', dn')"
    by (cases "resolve_loop cfg now2 pr (active_trades e) (risk_manager e, [], completed_trades e)") auto
  from resolve_loop_ids [where cfg = cfg and now = now2 and pr = pr and ts = "active_trades e"
      and rm = "risk_manager e" and st = "[]" and dn = "completed_trades e"]
  have ids: "map trade_id st' = map trade_id (filter (\<lambda>t. \<not> resolves now2 pr t) (active_trades e))"
    "map trade_id dn' = map trade_id (completed_trades e)
        @ map trade_id (filter (resolves now2 pr) (active_trades e))"
    by (simp_all add: l)
  have "int (length (filter (resolves now2 pr) (active_trades e))) \<le> open_trades_count (risk_manager e)"
    by (simp add: c)
  from resolve_loop_count [OF this, where cfg = cfg and st = "[]" and dn = "completed_trades e"]
  have cnt: "open_trades_count rm' =
      open_trades_count (risk_manager e) - int (length (filter (resolves now2 pr) (active_trades e)))"
    by (simp add: l)
  have r: "active_trades (check_and_resolve_trades cfg now2 pr e) = st'"
    "completed_trades (check_and_resolve_trades cfg now2 pr e) = dn'"
    "risk_manager (check_and_resolve_trades cfg now2 pr e) = rm'"
    by (simp_all add: check_and_resolve_trades_def l)
  from after have after': "list_all (\<lambda>t. \<not> resolved t) st'" "list_all resolved dn'"
    by (simp_all add: r)
  show ?thesis
    unfolding r using u c p ids cnt after' by simp
qed

theorem open_trades_count_matches_unresolved_witness:
  "reachable default_config one_open_trade
   \<and> open_trades_count (risk_manager one_open_trade) = 1
   \<and> length (unresolved_held one_open_trade) = 1"
proof -
  have r: "reachable default_config one_open_trade"
    unfolding one_open_trade_def by (rule r_signal [OF r_init])
  from open_trades_count_matches_unresolved [OF r]
  have "open_trades_count (risk_manager one_open_trade) = int (length (unresolved_held one_open_trade))"
    by simp
  moreover have "open_trades_count (risk_manager one_open_trade) = 1"
    by (simp add: one_open_trade_eq)
  ultimately show ?thesis using r by simp
qed

end
